theory Spec2Isabelle
  imports Main
begin

section \<open>Data model\<close>

text \<open>
  The services work on relational tables through an object-relational mapper. The
  tables are lists of rows in insertion order; a soft-deleted row stays in its table with
  its deletion mark set and is skipped by every default query. Identifiers are strings.
\<close>

type_synonym ident = string

text \<open>The error kinds the services throw, the runtime error of reading a property
  of \<open>undefined\<close>, and the database rejecting a row (a null in a column that takes
  none).\<close>

datatype error = NOT_FOUND | INVALID_DATA | DUPLICATE_ERROR | TYPE_ERROR | QUERY_FAILED

record RentalOptionValue =
  ov_id :: ident
  ov_value :: string
  ov_option_id :: ident
  ov_variant_id :: ident
  ov_deleted :: bool

record RentalOption =
  opt_id :: ident
  opt_title :: string
  opt_rental_id :: ident
  opt_deleted :: bool

record RentalVariantRow =
  var_id :: ident
  var_title :: string
  var_rental_id :: ident
  var_rank :: int
  var_inventory_quantity :: int
  var_deleted :: bool

record MoneyAmount =
  ma_id :: ident
  ma_variant_id :: ident
  ma_region_id :: "ident option"
  ma_currency_code :: "string option"
  ma_price_list_id :: "ident option"
  ma_amount :: int
  ma_deleted :: bool

record RentalRow =
  rn_id :: ident
  rn_title :: string
  rn_thumbnail :: "string option"
  rn_is_giftcard :: bool
  rn_discountable :: bool
  rn_profile_id :: ident
  rn_deleted :: bool

record RentalCollection =
  col_id :: ident
  col_title :: string
  col_deleted :: bool

text \<open>An emitted event: its name and the id it carries.\<close>

datatype event = Event string ident

record Store =
  rental_table :: "RentalRow list"
  option_table :: "RentalOption list"
  variant_table :: "RentalVariantRow list"
  option_value_table :: "RentalOptionValue list"
  money_amount_table :: "MoneyAmount list"
  region_table :: "(ident \<times> string) list"
  collection_table :: "RentalCollection list"
  events :: "event list"
  id_counter :: nat

text \<open>Entities as a query returns them: the row with the relations that were asked for.
  A relation that was not asked for is the empty list here.\<close>

record RentalVariant =
  v_row :: RentalVariantRow
  v_options :: "RentalOptionValue list"

record Rental =
  r_row :: RentalRow
  r_options :: "RentalOption list"
  r_variants :: "RentalVariant list"

abbreviation v_id :: "RentalVariant \<Rightarrow> ident" where
  "v_id v \<equiv> var_id (v_row v)"

abbreviation r_id :: "Rental \<Rightarrow> ident" where
  "r_id r \<equiv> rn_id (r_row r)"

text \<open>\<open>generateEntityId\<close> belongs to the host platform and returns a new unique id
  with the given prefix; here the store's counter makes the id unique.\<close>

definition generateEntityId :: "string \<Rightarrow> nat \<Rightarrow> ident" where
  "generateEntityId prefix n = prefix @ ''_'' @ replicate n (CHR ''i'')"

definition emit :: "string \<Rightarrow> ident \<Rightarrow> Store \<Rightarrow> Store" where
  "emit name i s = s\<lparr>events := events s @ [Event name i]\<rparr>"

subsection \<open>Queries with relations\<close>

text \<open>The top-level name of a relation path: \<open>rel.split(".")[0]\<close>.\<close>

definition toplevel :: "string \<Rightarrow> string" where
  "toplevel rel = takeWhile (\<lambda>c. c \<noteq> CHR ''.'') rel"

definition variant_options :: "Store \<Rightarrow> ident \<Rightarrow> RentalOptionValue list" where
  "variant_options s vid =
     filter (\<lambda>ov. ov_variant_id ov = vid \<and> \<not> ov_deleted ov) (option_value_table s)"

definition load_variant :: "Store \<Rightarrow> string list \<Rightarrow> RentalVariantRow \<Rightarrow> RentalVariant" where
  "load_variant s rels row =
     \<lparr>v_row = row,
      v_options = (if ''variants.options'' \<in> set rels then variant_options s (var_id row) else [])\<rparr>"

definition rental_variant_rows :: "Store \<Rightarrow> ident \<Rightarrow> RentalVariantRow list" where
  "rental_variant_rows s rid =
     filter (\<lambda>v. var_rental_id v = rid \<and> \<not> var_deleted v) (variant_table s)"

definition rental_options :: "Store \<Rightarrow> ident \<Rightarrow> RentalOption list" where
  "rental_options s rid =
     filter (\<lambda>opt. opt_rental_id opt = rid \<and> \<not> opt_deleted opt) (option_table s)"

definition load_rental :: "Store \<Rightarrow> string list \<Rightarrow> RentalRow \<Rightarrow> Rental" where
  "load_rental s rels row =
     \<lparr>r_row = row,
      r_options = (if ''options'' \<in> set rels then rental_options s (rn_id row) else []),
      r_variants = (if ''variants'' \<in> toplevel ` set rels
                    then map (load_variant s rels) (rental_variant_rows s (rn_id row))
                    else [])\<rparr>"

text \<open>\<open>rentalRepo.findOne({ id }, { relations })\<close>: the rental with this id that is
  not soft-deleted, or \<open>undefined\<close>.\<close>

definition findOne_rental :: "Store \<Rightarrow> ident \<Rightarrow> string list \<Rightarrow> Rental option" where
  "findOne_rental s rid rels =
     map_option (load_rental s rels)
       (find (\<lambda>r. rn_id r = rid \<and> \<not> rn_deleted r) (rental_table s))"

text \<open>\<open>RentalService.retrieve\<close>: fails with NotFound when no rental matches.\<close>

definition retrieve :: "Store \<Rightarrow> ident \<Rightarrow> string list \<Rightarrow> error + Rental" where
  "retrieve s rentalId rels =
     (case findOne_rental s rentalId rels of
        None \<Rightarrow> Inl NOT_FOUND
      | Some rental \<Rightarrow> Inr rental)"

section \<open>Deletions\<close>

text \<open>\<open>softRemove\<close> marks the row with the entity's id, and the rows of the relations
  that were loaded with it and cascade.\<close>

definition softRemove_option_values :: "ident list \<Rightarrow> Store \<Rightarrow> Store" where
  "softRemove_option_values ids s =
     s\<lparr>option_value_table :=
         map (\<lambda>ov. if ov_id ov \<in> set ids then ov\<lparr>ov_deleted := True\<rparr> else ov)
           (option_value_table s)\<rparr>"

definition softRemove_money_amounts :: "ident list \<Rightarrow> Store \<Rightarrow> Store" where
  "softRemove_money_amounts ids s =
     s\<lparr>money_amount_table :=
         map (\<lambda>m. if ma_id m \<in> set ids then m\<lparr>ma_deleted := True\<rparr> else m)
           (money_amount_table s)\<rparr>"

definition variant_prices :: "Store \<Rightarrow> ident \<Rightarrow> MoneyAmount list" where
  "variant_prices s vid =
     filter (\<lambda>m. ma_variant_id m = vid \<and> \<not> ma_deleted m) (money_amount_table s)"

text \<open>Soft-removing a variant that was loaded with its prices and options.\<close>

definition softRemove_variant :: "ident \<Rightarrow> Store \<Rightarrow> Store" where
  "softRemove_variant vid s =
     (let s1 = softRemove_money_amounts (map ma_id (variant_prices s vid)) s;
          s2 = softRemove_option_values (map ov_id (variant_options s vid)) s1
      in s2\<lparr>variant_table :=
              map (\<lambda>v. if var_id v = vid then v\<lparr>var_deleted := True\<rparr> else v)
                (variant_table s2)\<rparr>)"

text \<open>\<open>RentalService.delete\<close>: a missing rental is not an error.\<close>

definition RentalService_delete :: "Store \<Rightarrow> ident \<Rightarrow> error + Store" where
  "RentalService_delete s rentalId =
     (case findOne_rental s rentalId [''variants'', ''variants.prices'', ''variants.options''] of
        None \<Rightarrow> Inr s
      | Some rental \<Rightarrow>
          (let s1 = fold (\<lambda>v. softRemove_variant (v_id v)) (r_variants rental) s;
               s2 = s1\<lparr>rental_table :=
                         map (\<lambda>r. if rn_id r = r_id rental then r\<lparr>rn_deleted := True\<rparr> else r)
                           (rental_table s1)\<rparr>
           in Inr (emit ''rental.deleted'' rentalId s2)))"

text \<open>\<open>RentalVariantService.delete\<close>: a missing variant is not an error.\<close>

definition RentalVariantService_delete :: "Store \<Rightarrow> ident \<Rightarrow> error + Store" where
  "RentalVariantService_delete s variantId =
     (case find (\<lambda>v. var_id v = variantId \<and> \<not> var_deleted v) (variant_table s) of
        None \<Rightarrow> Inr s
      | Some variant \<Rightarrow>
          Inr (emit ''rental-variant.deleted'' (var_id variant)
                 (softRemove_variant (var_id variant) s)))"

text \<open>\<open>RentalVariantService.deleteOptionValue\<close>: a missing value is not an error.\<close>

definition deleteOptionValue :: "Store \<Rightarrow> ident \<Rightarrow> ident \<Rightarrow> error + Store" where
  "deleteOptionValue s variantId optionId =
     (case find (\<lambda>ov. ov_variant_id ov = variantId \<and> ov_option_id ov = optionId \<and> \<not> ov_deleted ov)
             (option_value_table s) of
        None \<Rightarrow> Inr s
      | Some rentalOptionValue \<Rightarrow> Inr (softRemove_option_values [ov_id rentalOptionValue] s))"

text \<open>\<open>RentalCollectionService.retrieve\<close>: fails with NotFound when no collection has
  the id.\<close>

definition RentalCollectionService_retrieve :: "Store \<Rightarrow> ident \<Rightarrow> error + RentalCollection" where
  "RentalCollectionService_retrieve s collectionId =
     (case find (\<lambda>c. col_id c = collectionId \<and> \<not> col_deleted c) (collection_table s) of
        None \<Rightarrow> Inl NOT_FOUND
      | Some collection \<Rightarrow> Inr collection)"

text \<open>\<open>RentalCollectionService.delete\<close> looks the collection up with \<open>retrieve\<close>, so
  the error of \<open>retrieve\<close> leaves the function before its own test for a missing
  collection.\<close>

definition RentalCollectionService_delete :: "Store \<Rightarrow> ident \<Rightarrow> error + Store" where
  "RentalCollectionService_delete s collectionId =
     (case RentalCollectionService_retrieve s collectionId of
        Inl e \<Rightarrow> Inl e
      | Inr collection \<Rightarrow>
          Inr (s\<lparr>collection_table :=
                  map (\<lambda>c. if col_id c = col_id collection then c\<lparr>col_deleted := True\<rparr> else c)
                    (collection_table s)\<rparr>))"

section \<open>Reordering the variants of a rental\<close>

text \<open>The callback of \<open>variantOrder.map\<close> in \<open>reorderVariants\<close>: the first id with no
  variant throws InvalidData.\<close>

fun reorder_map :: "RentalVariant list \<Rightarrow> ident list \<Rightarrow> error + RentalVariant list" where
  "reorder_map vs [] = Inr []"
| "reorder_map vs (vId # rest) =
     (case find (\<lambda>v. v_id v = vId) vs of
        None \<Rightarrow> Inl INVALID_DATA
      | Some variant \<Rightarrow>
          (case reorder_map vs rest of
             Inl e \<Rightarrow> Inl e
           | Inr out \<Rightarrow> Inr (variant # out)))"

text \<open>The variants of a rental are a relation that cascades (\<open>cascade: true\<close> in the
  model of the rental). When a rental is saved with its collection of variants, a stored
  variant of the rental that the collection no longer holds is detached from the rental:
  its \<open>rental_id\<close> is set to null.\<close>

definition detached_variants :: "Store \<Rightarrow> Rental \<Rightarrow> RentalVariantRow list" where
  "detached_variants s rental =
     filter (\<lambda>row. var_id row \<notin> v_id ` set (r_variants rental))
       (rental_variant_rows s (r_id rental))"

text \<open>\<open>rentalRepo.save\<close> of a rental that was read with its variants and whose
  collection alone was replaced. The columns of the rental and of the variants in the
  collection are as they were read (the rank of a variant is a column that is not
  selected), so no row is written for them. The \<open>rental_id\<close> of a variant takes no
  null: the statement that detaches a variant is rejected by the database.\<close>

definition save_variants_collection :: "Rental \<Rightarrow> Store \<Rightarrow> error + Store" where
  "save_variants_collection rental s =
     (if detached_variants s rental = [] then Inr s else Inl QUERY_FAILED)"

text \<open>\<open>RentalService.reorderVariants\<close>. The rental with its new collection is handed
  to \<open>rentalRepo.save\<close>, and the promise of the save is what the function returns: a
  save that is rejected fails the call, and the transaction of the call is rolled back
  with the event. The event carries the rental's id.\<close>

definition reorderVariants :: "Store \<Rightarrow> ident \<Rightarrow> ident list \<Rightarrow> error + (Rental \<times> Store)" where
  "reorderVariants s rentalId variantOrder =
     (case retrieve s rentalId [''variants''] of
        Inl e \<Rightarrow> Inl e
      | Inr rental \<Rightarrow>
          if length (r_variants rental) \<noteq> length variantOrder then Inl INVALID_DATA
          else (case reorder_map (r_variants rental) variantOrder of
                  Inl e \<Rightarrow> Inl e
                | Inr vs \<Rightarrow>
                    (case save_variants_collection (rental\<lparr>r_variants := vs\<rparr>) s of
                       Inl e \<Rightarrow> Inl e
                     | Inr s1 \<Rightarrow>
                         Inr (rental\<lparr>r_variants := vs\<rparr>,
                              emit ''rental.updated'' rentalId s1))))"

section \<open>Prices of a variant\<close>

text \<open>A price as the callers supply it. A field that is absent is \<open>None\<close>.\<close>

record RentalVariantPrice =
  p_id :: "ident option"
  p_currency_code :: "string option"
  p_region_id :: "ident option"
  p_amount :: int

text \<open>JavaScript truthiness of an optional string: defined and not empty.\<close>

fun truthy :: "string option \<Rightarrow> bool" where
  "truthy None = False"
| "truthy (Some x) = (x \<noteq> [])"

text \<open>Saving an entity that was read from its table writes the row it was read from:
  the first row the query matched.\<close>

fun update_first :: "('a \<Rightarrow> bool) \<Rightarrow> ('a \<Rightarrow> 'a) \<Rightarrow> 'a list \<Rightarrow> 'a list" where
  "update_first P f [] = []"
| "update_first P f (x # xs) = (if P x then f x # xs else x # update_first P f xs)"

text \<open>Saving a price that was built from the caller's fields: with no id it is inserted
  under a new id; with the id of a stored row, that row takes the given fields; with an
  unknown id it is inserted under that id. A new row belongs to no price list.\<close>

definition save_new_money_amount ::
  "Store \<Rightarrow> ident \<Rightarrow> RentalVariantPrice \<Rightarrow> MoneyAmount \<times> Store" where
  "save_new_money_amount s variantId price =
     (let fresh = \<lambda>i. \<lparr>ma_id = i, ma_variant_id = variantId, ma_region_id = p_region_id price,
                         ma_currency_code = p_currency_code price, ma_price_list_id = None,
                         ma_amount = p_amount price, ma_deleted = False\<rparr>;
          overwrite = \<lambda>m. m\<lparr>ma_variant_id := variantId,
                              ma_region_id := (case p_region_id price of
                                                 None \<Rightarrow> ma_region_id m | Some r \<Rightarrow> Some r),
                              ma_currency_code := (case p_currency_code price of
                                                     None \<Rightarrow> ma_currency_code m | Some c \<Rightarrow> Some c),
                              ma_amount := p_amount price\<rparr>
      in case p_id price of
           None \<Rightarrow>
             (fresh (generateEntityId ''ma'' (id_counter s)),
              s\<lparr>money_amount_table :=
                   money_amount_table s @ [fresh (generateEntityId ''ma'' (id_counter s))],
                 id_counter := Suc (id_counter s)\<rparr>)
         | Some i \<Rightarrow>
             (case find (\<lambda>m. ma_id m = i) (money_amount_table s) of
                None \<Rightarrow> (fresh i, s\<lparr>money_amount_table := money_amount_table s @ [fresh i]\<rparr>)
              | Some m \<Rightarrow>
                  (overwrite m,
                   s\<lparr>money_amount_table :=
                        update_first (\<lambda>m. ma_id m = i) overwrite (money_amount_table s)\<rparr>)))"

text \<open>The \<open>where\<close> of \<open>setRegionPrice\<close>: the variant, the region of the price (a
  field that is \<open>undefined\<close> puts no condition), no price list, not soft-deleted.\<close>

definition default_region_price :: "ident \<Rightarrow> ident option \<Rightarrow> MoneyAmount \<Rightarrow> bool" where
  "default_region_price variantId region m \<longleftrightarrow>
     ma_variant_id m = variantId
     \<and> (case region of None \<Rightarrow> True | Some r \<Rightarrow> ma_region_id m = Some r)
     \<and> ma_price_list_id m = None \<and> \<not> ma_deleted m"

text \<open>\<open>RentalVariantService.setRegionPrice\<close>.\<close>

definition setRegionPrice :: "Store \<Rightarrow> ident \<Rightarrow> RentalVariantPrice \<Rightarrow> MoneyAmount \<times> Store" where
  "setRegionPrice s variantId price =
     (case find (default_region_price variantId (p_region_id price)) (money_amount_table s) of
        None \<Rightarrow> save_new_money_amount s variantId price
      | Some moneyAmount \<Rightarrow>
          (moneyAmount\<lparr>ma_amount := p_amount price\<rparr>,
           s\<lparr>money_amount_table :=
                update_first (default_region_price variantId (p_region_id price))
                  (\<lambda>m. m\<lparr>ma_amount := p_amount price\<rparr>) (money_amount_table s)\<rparr>))"


text \<open>\<open>setCurrencyPrice\<close> hands over to \<open>upsertVariantCurrencyPrice\<close> of the host
  platform's price repository. Its contract: find the default price of the variant for
  the currency (no region, no price list) and set its amount, or create the price.\<close>

definition default_currency_price :: "ident \<Rightarrow> string option \<Rightarrow> MoneyAmount \<Rightarrow> bool" where
  "default_currency_price variantId currency m \<longleftrightarrow>
     ma_variant_id m = variantId \<and> ma_currency_code m = currency \<and> ma_region_id m = None
     \<and> ma_price_list_id m = None \<and> \<not> ma_deleted m"

definition setCurrencyPrice :: "Store \<Rightarrow> ident \<Rightarrow> RentalVariantPrice \<Rightarrow> MoneyAmount \<times> Store" where
  "setCurrencyPrice s variantId price =
     (case find (default_currency_price variantId (p_currency_code price)) (money_amount_table s) of
        None \<Rightarrow> save_new_money_amount s variantId price
      | Some moneyAmount \<Rightarrow>
          (moneyAmount\<lparr>ma_amount := p_amount price\<rparr>,
           s\<lparr>money_amount_table :=
                update_first (default_currency_price variantId (p_currency_code price))
                  (\<lambda>m. m\<lparr>ma_amount := p_amount price\<rparr>) (money_amount_table s)\<rparr>))"

text \<open>\<open>regionService.retrieve\<close> of the host platform: the currency code of the region,
  NotFound for an unknown region.\<close>

definition regionService_retrieve :: "Store \<Rightarrow> ident \<Rightarrow> error + string" where
  "regionService_retrieve s regionId =
     (case map_of (region_table s) regionId of
        None \<Rightarrow> Inl NOT_FOUND
      | Some currency_code \<Rightarrow> Inr currency_code)"

text \<open>The loop over the prices in \<open>create\<close> and in \<open>updateVariantPrices\<close>: a price
  with a region is stored with the currency of its region, any other as a currency
  price.\<close>

fun set_prices :: "Store \<Rightarrow> ident \<Rightarrow> RentalVariantPrice list \<Rightarrow> error + Store" where
  "set_prices s variantId [] = Inr s"
| "set_prices s variantId (price # rest) =
     (if truthy (p_region_id price) then
        (case regionService_retrieve s (the (p_region_id price)) of
           Inl e \<Rightarrow> Inl e
         | Inr currency_code \<Rightarrow>
             set_prices
               (snd (setRegionPrice s variantId
                       \<lparr>p_id = None, p_currency_code = Some currency_code,
                        p_region_id = p_region_id price, p_amount = p_amount price\<rparr>))
               variantId rest)
      else set_prices (snd (setCurrencyPrice s variantId price)) variantId rest)"

text \<open>\<open>findVariantPricesNotIn\<close> of the host platform's price repository. Its contract:
  the default prices of the variant whose scope, region or currency, is the scope of no
  supplied price.\<close>

definition same_scope :: "RentalVariantPrice \<Rightarrow> MoneyAmount \<Rightarrow> bool" where
  "same_scope p m \<longleftrightarrow>
     (if truthy (p_region_id p) then ma_region_id m = p_region_id p
      else ma_region_id m = None \<and> ma_currency_code m = p_currency_code p)"

definition findVariantPricesNotIn :: "Store \<Rightarrow> ident \<Rightarrow> RentalVariantPrice list \<Rightarrow> MoneyAmount list" where
  "findVariantPricesNotIn s variantId prices =
     filter (\<lambda>m. ma_variant_id m = variantId \<and> ma_price_list_id m = None \<and> \<not> ma_deleted m
                 \<and> \<not> list_ex (\<lambda>p. same_scope p m) prices)
       (money_amount_table s)"

text \<open>\<open>RentalVariantService.updateVariantPrices\<close>.\<close>

definition updateVariantPrices :: "Store \<Rightarrow> ident \<Rightarrow> RentalVariantPrice list \<Rightarrow> error + Store" where
  "updateVariantPrices s variantId prices =
     (let obsoletePrices = findVariantPricesNotIn s variantId prices
      in case set_prices s variantId prices of
           Inl e \<Rightarrow> Inl e
         | Inr s1 \<Rightarrow>
             Inr (s1\<lparr>money_amount_table :=
                       filter (\<lambda>m. ma_id m \<notin> set (map ma_id obsoletePrices))
                         (money_amount_table s1)\<rparr>))"

section \<open>The variant service\<close>

text \<open>An option value of a variant as the callers supply it. The type of the source
  says \<open>option_id: string\<close>; the route that creates a rental fills it from an array
  index, which gives \<open>undefined\<close> out of range, so the id is optional here.\<close>

record RentalVariantOption =
  vo_option_id :: "ident option"
  vo_value :: string

text \<open>The input of \<open>create\<close>. The type of the source leaves the title and the
  inventory quantity optional. The further scalar columns of a variant (sku, barcode,
  dimensions and the like) take null or have a default; they are copied to the row
  unchanged and are left out.\<close>

record CreateRentalVariantInput =
  cv_title :: "string option"
  cv_variant_rank :: "int option"
  cv_inventory_quantity :: "int option"
  cv_options :: "RentalVariantOption list"
  cv_prices :: "RentalVariantPrice list"

datatype rental_arg = RentalId ident | RentalObject Rental

text \<open>The rental \<open>create\<close> works on: read with its variants, their options and its
  options when an id is given; the object itself otherwise, which must have an id. An
  id that matches no rental leaves \<open>rental\<close> undefined, and reading its options then
  throws.\<close>

fun resolve_rental :: "Store \<Rightarrow> rental_arg \<Rightarrow> error + Rental" where
  "resolve_rental s (RentalId rentalId) =
     (case findOne_rental s rentalId [''variants'', ''variants.options'', ''options''] of
        None \<Rightarrow> Inl TYPE_ERROR
      | Some rental \<Rightarrow> Inr rental)"
| "resolve_rental s (RentalObject rental) =
     (if r_id rental = [] then Inl INVALID_DATA else Inr rental)"

text \<open>The value supplied for an option: \<open>variant.options.find(...)?.value\<close>.\<close>

definition supplied_value :: "ident \<Rightarrow> RentalVariantOption list \<Rightarrow> string option" where
  "supplied_value optionId supplied =
     map_option vo_value (find (\<lambda>vo. Some optionId = vo_option_id vo) supplied)"

text \<open>The test of \<open>rental.variants.find\<close> in \<open>create\<close>: every option value of the
  existing variant is equal to the value supplied for its option.\<close>

definition same_option_values :: "RentalVariantOption list \<Rightarrow> RentalVariant \<Rightarrow> bool" where
  "same_option_values supplied v =
     list_all (\<lambda>option. Some (ov_value option) = supplied_value (ov_option_id option) supplied)
       (v_options v)"

text \<open>Saving the new variant inserts its row and, by cascade, one option-value row for
  each supplied value. The title, the inventory quantity and the option ids are columns
  that take no null and have no default.\<close>

definition insert_variant ::
  "Store \<Rightarrow> ident \<Rightarrow> CreateRentalVariantInput \<Rightarrow> int \<Rightarrow> error + (RentalVariant \<times> Store)" where
  "insert_variant s rentalId variant rank =
     (case (cv_title variant, cv_inventory_quantity variant) of
        (Some title, Some inventory_quantity) \<Rightarrow>
          if list_ex (\<lambda>vo. vo_option_id vo = None) (cv_options variant) then Inl QUERY_FAILED
          else
            (let vid = generateEntityId ''variant'' (id_counter s);
                 row = \<lparr>var_id = vid, var_title = title, var_rental_id = rentalId,
                        var_rank = rank, var_inventory_quantity = inventory_quantity,
                        var_deleted = False\<rparr>;
                 ovs = map (\<lambda>(k, vo). \<lparr>ov_id = generateEntityId ''optval'' (Suc (id_counter s) + k),
                                         ov_value = vo_value vo,
                                         ov_option_id = the (vo_option_id vo),
                                         ov_variant_id = vid, ov_deleted = False\<rparr>)
                         (enumerate 0 (cv_options variant))
             in Inr (\<lparr>v_row = row, v_options = ovs\<rparr>,
                     s\<lparr>variant_table := variant_table s @ [row],
                       option_value_table := option_value_table s @ ovs,
                       id_counter := Suc (id_counter s) + length (cv_options variant)\<rparr>))
      | _ \<Rightarrow> Inl QUERY_FAILED)"

text \<open>\<open>RentalVariantService.create\<close> from the point where the rental is at hand: the
  two tests on the supplied option values, the search for a variant with the same values,
  the rank, the insertion, the prices and the event. The store is the one at the time of
  the writes, which the rental may have been read before.\<close>

definition create_with_rental ::
  "Store \<Rightarrow> Rental \<Rightarrow> CreateRentalVariantInput \<Rightarrow> error + (RentalVariant \<times> Store)" where
  "create_with_rental s rental variant =
     (if length (r_options rental) \<noteq> length (cv_options variant) then Inl INVALID_DATA
      else if list_ex (\<lambda>option. find (\<lambda>vo. Some (opt_id option) = vo_option_id vo)
                                   (cv_options variant) = None)
                (r_options rental)
      then Inl INVALID_DATA
      else
        (case find (same_option_values (cv_options variant)) (r_variants rental) of
           Some variantExists \<Rightarrow> Inl DUPLICATE_ERROR
         | None \<Rightarrow>
             (let rank = (case cv_variant_rank variant of
                            None \<Rightarrow> int (length (r_variants rental))
                          | Some k \<Rightarrow> if k = 0 then int (length (r_variants rental)) else k)
              in case insert_variant s (r_id rental) variant rank of
                   Inl e \<Rightarrow> Inl e
                 | Inr (result, s1) \<Rightarrow>
                     (case set_prices s1 (v_id result) (cv_prices variant) of
                        Inl e \<Rightarrow> Inl e
                      | Inr s2 \<Rightarrow>
                          Inr (result, emit ''rental-variant.created'' (v_id result) s2)))))"

text \<open>\<open>RentalVariantService.create\<close>: the rental is resolved, and the variant is
  created on it at once.\<close>

definition RentalVariantService_create ::
  "Store \<Rightarrow> rental_arg \<Rightarrow> CreateRentalVariantInput \<Rightarrow> error + (RentalVariant \<times> Store)" where
  "RentalVariantService_create s rentalOrRentalId variant =
     (case resolve_rental s rentalOrRentalId of
        Inl e \<Rightarrow> Inl e
      | Inr rental \<Rightarrow> create_with_rental s rental variant)"

text \<open>\<open>updateOptionValue\<close>: NotFound when the variant has no value for the option.\<close>

definition updateOptionValue :: "Store \<Rightarrow> ident \<Rightarrow> ident option \<Rightarrow> string \<Rightarrow> error + Store" where
  "updateOptionValue s variantId optionId optionValue =
     (let hit = (\<lambda>ov. ov_variant_id ov = variantId
                      \<and> (case optionId of None \<Rightarrow> True | Some oid \<Rightarrow> ov_option_id ov = oid)
                      \<and> \<not> ov_deleted ov)
      in case find hit (option_value_table s) of
           None \<Rightarrow> Inl NOT_FOUND
         | Some rentalOptionValue \<Rightarrow>
             Inr (s\<lparr>option_value_table :=
                      update_first hit (\<lambda>ov. ov\<lparr>ov_value := optionValue\<rparr>)
                        (option_value_table s)\<rparr>))"

fun update_option_values :: "Store \<Rightarrow> ident \<Rightarrow> RentalVariantOption list \<Rightarrow> error + Store" where
  "update_option_values s variantId [] = Inr s"
| "update_option_values s variantId (option # rest) =
     (case updateOptionValue s variantId (vo_option_id option) (vo_value option) of
        Inl e \<Rightarrow> Inl e
      | Inr s1 \<Rightarrow> update_option_values s1 variantId rest)"

text \<open>\<open>addOptionValue\<close> inserts a value; it looks for no earlier value.\<close>

definition addOptionValue :: "Store \<Rightarrow> ident \<Rightarrow> ident \<Rightarrow> string \<Rightarrow> RentalOptionValue \<times> Store" where
  "addOptionValue s variantId optionId optionValue =
     (let rentalOptionValue =
            \<lparr>ov_id = generateEntityId ''optval'' (id_counter s), ov_value = optionValue,
             ov_option_id = optionId, ov_variant_id = variantId, ov_deleted = False\<rparr>
      in (rentalOptionValue,
          s\<lparr>option_value_table := option_value_table s @ [rentalOptionValue],
            id_counter := Suc (id_counter s)\<rparr>))"

text \<open>The input of \<open>update\<close>; an absent key is \<open>None\<close>. Metadata and the further
  scalar columns are left out.\<close>

record UpdateRentalVariantInput =
  uv_title :: "string option"
  uv_rental_id :: "ident option"
  uv_variant_rank :: "int option"
  uv_inventory_quantity :: "int option"
  uv_options :: "RentalVariantOption list option"
  uv_prices :: "RentalVariantPrice list option"

datatype variant_arg = VariantId ident | VariantObject RentalVariant

fun resolve_variant :: "Store \<Rightarrow> variant_arg \<Rightarrow> error + RentalVariant" where
  "resolve_variant s (VariantId variantId) =
     (case find (\<lambda>v. var_id v = variantId \<and> \<not> var_deleted v) (variant_table s) of
        None \<Rightarrow> Inl NOT_FOUND
      | Some row \<Rightarrow> Inr \<lparr>v_row = row, v_options = []\<rparr>)"
| "resolve_variant s (VariantObject variant) =
     (if v_id variant = [] then Inl INVALID_DATA else Inr variant)"

text \<open>An inventory quantity that is a number is set on the variant, and the keys of
  the update that remain after the dedicated ones overwrite the fields of the variant.\<close>

definition apply_rest :: "UpdateRentalVariantInput \<Rightarrow> RentalVariantRow \<Rightarrow> RentalVariantRow" where
  "apply_rest update row =
     row\<lparr>var_title := (case uv_title update of None \<Rightarrow> var_title row | Some t \<Rightarrow> t),
         var_rental_id := (case uv_rental_id update of None \<Rightarrow> var_rental_id row | Some r \<Rightarrow> r),
         var_rank := (case uv_variant_rank update of None \<Rightarrow> var_rank row | Some k \<Rightarrow> k),
         var_inventory_quantity := (case uv_inventory_quantity update of
                                      None \<Rightarrow> var_inventory_quantity row | Some n \<Rightarrow> n)\<rparr>"

text \<open>Saving a variant that has an id writes the row of that id, or inserts it when
  the table has none.\<close>

definition save_variant_row :: "RentalVariantRow \<Rightarrow> Store \<Rightarrow> Store" where
  "save_variant_row row s =
     (if list_ex (\<lambda>v. var_id v = var_id row) (variant_table s)
      then s\<lparr>variant_table :=
                 map (\<lambda>v. if var_id v = var_id row then row else v) (variant_table s)\<rparr>
      else s\<lparr>variant_table := variant_table s @ [row]\<rparr>)"

text \<open>\<open>RentalVariantService.update\<close>.\<close>

definition RentalVariantService_update ::
  "Store \<Rightarrow> variant_arg \<Rightarrow> UpdateRentalVariantInput \<Rightarrow> error + (RentalVariant \<times> Store)" where
  "RentalVariantService_update s variantOrVariantId update =
     (case resolve_variant s variantOrVariantId of
        Inl e \<Rightarrow> Inl e
      | Inr variant \<Rightarrow>
          (case (case uv_prices update of
                   None \<Rightarrow> Inr s
                 | Some prices \<Rightarrow> updateVariantPrices s (v_id variant) prices) of
             Inl e \<Rightarrow> Inl e
           | Inr s1 \<Rightarrow>
               (case (case uv_options update of
                        None \<Rightarrow> Inr s1
                      | Some options \<Rightarrow> update_option_values s1 (v_id variant) options) of
                  Inl e \<Rightarrow> Inl e
                | Inr s2 \<Rightarrow>
                    (let result = variant\<lparr>v_row := apply_rest update (v_row variant)\<rparr>
                     in Inr (result,
                             emit ''rental-variant.updated'' (v_id result)
                               (save_variant_row (v_row result) s2))))))"

section \<open>The rental service\<close>

text \<open>\<open>RentalService.addOption\<close>.\<close>

definition addOption :: "Store \<Rightarrow> ident \<Rightarrow> string \<Rightarrow> error + (Rental \<times> Store)" where
  "addOption s rentalId optionTitle =
     (case retrieve s rentalId [''options'', ''variants''] of
        Inl e \<Rightarrow> Inl e
      | Inr rental \<Rightarrow>
          if find (\<lambda>opt. opt_title opt = optionTitle) (r_options rental) \<noteq> None
          then Inl DUPLICATE_ERROR
          else
            (let option = \<lparr>opt_id = generateEntityId ''opt'' (id_counter s),
                           opt_title = optionTitle, opt_rental_id = rentalId,
                           opt_deleted = False\<rparr>;
                 s1 = s\<lparr>option_table := option_table s @ [option],
                        id_counter := Suc (id_counter s)\<rparr>;
                 s2 = fold (\<lambda>variant st.
                              snd (addOptionValue st (v_id variant) (opt_id option) ''Default Value''))
                        (r_variants rental) s1
             in case retrieve s2 rentalId [] of
                  Inl e \<Rightarrow> Inl e
                | Inr result \<Rightarrow> Inr (result, emit ''rental.updated'' (r_id result) s2)))"

text \<open>The value a variant holds for an option: \<open>v.options.find(...)?.value\<close>.\<close>

definition value_for :: "ident \<Rightarrow> RentalVariant \<Rightarrow> string option" where
  "value_for optionId v =
     map_option ov_value (find (\<lambda>ov. ov_option_id ov = optionId) (v_options v))"

text \<open>Soft-removing an option that was loaded with its values.\<close>

definition softRemove_option :: "ident \<Rightarrow> Store \<Rightarrow> Store" where
  "softRemove_option optionId s =
     (let s1 = softRemove_option_values
                 (map ov_id (filter (\<lambda>ov. ov_option_id ov = optionId \<and> \<not> ov_deleted ov)
                               (option_value_table s))) s
      in s1\<lparr>option_table :=
              map (\<lambda>opt. if opt_id opt = optionId then opt\<lparr>opt_deleted := True\<rparr> else opt)
                (option_table s1)\<rparr>)"

text \<open>\<open>rentalOptionRepo.findOne\<close> in \<open>deleteOption\<close>: the option of this id and
  this rental that is not soft-deleted.\<close>

definition findOne_option :: "Store \<Rightarrow> ident \<Rightarrow> ident \<Rightarrow> RentalOption option" where
  "findOne_option s rentalId optionId =
     find (\<lambda>opt. opt_id opt = optionId \<and> opt_rental_id opt = rentalId \<and> \<not> opt_deleted opt)
       (option_table s)"

text \<open>\<open>RentalService.deleteOption\<close>. It returns nothing when the option does not exist,
  the rental otherwise.\<close>

definition deleteOption :: "Store \<Rightarrow> ident \<Rightarrow> ident \<Rightarrow> error + (Rental option \<times> Store)" where
  "deleteOption s rentalId optionId =
     (case retrieve s rentalId [''variants'', ''variants.options''] of
        Inl e \<Rightarrow> Inl e
      | Inr rental \<Rightarrow>
          (case findOne_option s rentalId optionId of
             None \<Rightarrow> Inr (None, s)
           | Some rentalOption \<Rightarrow>
               (case r_variants rental of
                  [] \<Rightarrow>
                    Inr (Some rental,
                         emit ''rental.updated'' (r_id rental) (softRemove_option (opt_id rentalOption) s))
                | firstVariant # _ \<Rightarrow>
                    (let valueToMatch = value_for optionId firstVariant;
                         equalsFirst = map (\<lambda>v. value_for optionId v = valueToMatch) (r_variants rental)
                     in if \<not> list_all (\<lambda>b. b) equalsFirst then Inl INVALID_DATA
                        else Inr (Some rental,
                                  emit ''rental.updated'' (r_id rental)
                                    (softRemove_option (opt_id rentalOption) s))))))"

text \<open>A variant in the input of \<open>RentalService.update\<close>.\<close>

record UpdateVariantInput =
  nv_id :: "ident option"
  nv_title :: "string option"
  nv_inventory_quantity :: "int option"
  nv_options :: "RentalVariantOption list option"
  nv_prices :: "RentalVariantPrice list option"

text \<open>The input of \<open>RentalService.update\<close>. Images, tags, type and metadata go to
  repositories of their own and touch no variant; they are left out, as are the
  scalar columns other than the title. The ids of the sales channels are kept for the
  test on the feature flag.\<close>

record UpdateRentalInput =
  u_title :: "string option"
  u_sales_channels :: "ident list option"
  u_variants :: "UpdateVariantInput list option"

text \<open>\<open>rentalVariantRepo.remove\<close>: the row leaves the table, and with it the rows that
  hang on it.\<close>

definition remove_variant :: "ident \<Rightarrow> Store \<Rightarrow> Store" where
  "remove_variant vid s =
     s\<lparr>variant_table := filter (\<lambda>v. var_id v \<noteq> vid) (variant_table s),
       option_value_table := filter (\<lambda>ov. ov_variant_id ov \<noteq> vid) (option_value_table s),
       money_amount_table := filter (\<lambda>m. ma_variant_id m \<noteq> vid) (money_amount_table s)\<rparr>"

text \<open>The first loop of the variant part of \<open>update\<close>: a current variant whose id no
  incoming variant carries is removed.\<close>

definition remove_missing :: "RentalVariant list \<Rightarrow> UpdateVariantInput list \<Rightarrow> Store \<Rightarrow> Store" where
  "remove_missing current variants s =
     fold (\<lambda>variant st.
             if find (\<lambda>v. truthy (nv_id v) \<and> Some (v_id variant) = nv_id v) variants = None
             then remove_variant (v_id variant) st else st)
       current s"

text \<open>The second loop: \<open>i\<close> is the position of the incoming variant, which becomes its
  rank. A variant with an id is updated, any other is created.\<close>

fun update_variants ::
  "Store \<Rightarrow> Rental \<Rightarrow> nat \<Rightarrow> UpdateVariantInput list \<Rightarrow> error + (RentalVariant list \<times> Store)" where
  "update_variants s rental i [] = Inr ([], s)"
| "update_variants s rental i (newVariant # rest) =
     (case (if truthy (nv_id newVariant) then
              (case find (\<lambda>v. Some (v_id v) = nv_id newVariant) (r_variants rental) of
                 None \<Rightarrow> Inl NOT_FOUND
               | Some variant \<Rightarrow>
                   RentalVariantService_update s (VariantObject variant)
                     \<lparr>uv_title = nv_title newVariant,
                      uv_rental_id = Some (var_rental_id (v_row variant)),
                      uv_variant_rank = Some (int i),
                      uv_inventory_quantity = nv_inventory_quantity newVariant,
                      uv_options = nv_options newVariant,
                      uv_prices = nv_prices newVariant\<rparr>)
            else
              RentalVariantService_create s (RentalId (r_id rental))
                \<lparr>cv_title = nv_title newVariant,
                 cv_variant_rank = Some (int i),
                 cv_inventory_quantity = nv_inventory_quantity newVariant,
                 cv_options = (case nv_options newVariant of None \<Rightarrow> [] | Some os \<Rightarrow> os),
                 cv_prices = (case nv_prices newVariant of None \<Rightarrow> [] | Some ps \<Rightarrow> ps)\<rparr>) of
        Inl e \<Rightarrow> Inl e
      | Inr (saved, s1) \<Rightarrow>
          (case update_variants s1 rental (Suc i) rest of
             Inl e \<Rightarrow> Inl e
           | Inr (newVariants, s2) \<Rightarrow> Inr (saved # newVariants, s2)))"

text \<open>\<open>RentalService.update\<close>; \<open>flag\<close> says whether the sales-channel feature is on.\<close>

definition RentalService_update ::
  "bool \<Rightarrow> Store \<Rightarrow> ident \<Rightarrow> UpdateRentalInput \<Rightarrow> error + (Rental \<times> Store)" where
  "RentalService_update flag s rentalId update =
     (if \<not> flag \<and> u_sales_channels update \<noteq> None then Inl INVALID_DATA
      else
        (case retrieve s rentalId [''variants'', ''tags'', ''images''] of
           Inl e \<Rightarrow> Inl e
         | Inr rental \<Rightarrow>
             (case (case u_variants update of
                      None \<Rightarrow> Inr (r_variants rental, s)
                    | Some variants \<Rightarrow>
                        update_variants (remove_missing (r_variants rental) variants s)
                          rental 0 variants) of
                Inl e \<Rightarrow> Inl e
              | Inr (newVariants, s1) \<Rightarrow>
                  (let row = (r_row rental)
                               \<lparr>rn_title := (case u_title update of
                                               None \<Rightarrow> rn_title (r_row rental) | Some t \<Rightarrow> t)\<rparr>;
                       result = rental\<lparr>r_row := row, r_variants := newVariants\<rparr>;
                       s2 = s1\<lparr>rental_table :=
                                 map (\<lambda>r. if rn_id r = rn_id row then row else r) (rental_table s1)\<rparr>
                   in Inr (result, emit ''rental.updated'' (r_id result) s2)))))"

section \<open>Creating a rental through the route\<close>

text \<open>The input of \<open>RentalService.create\<close>. Tags, type and sales channels go to
  repositories of their own; they are left out, as are the scalar columns that no
  branch reads. An option is given by its title.\<close>

record CreateRentalInput =
  ci_title :: string
  ci_thumbnail :: "string option"
  ci_images :: "string list option"
  ci_is_giftcard :: bool
  ci_discountable :: bool
  ci_profile_id :: ident
  ci_options :: "string list option"

text \<open>The loop over the declared options: each is saved with the id of the rental.\<close>

fun create_options :: "Store \<Rightarrow> ident \<Rightarrow> string list \<Rightarrow> Store" where
  "create_options s rentalId [] = s"
| "create_options s rentalId (title # rest) =
     create_options
       (s\<lparr>option_table :=
            option_table s @ [\<lparr>opt_id = generateEntityId ''opt'' (id_counter s), opt_title = title,
                                opt_rental_id = rentalId, opt_deleted = False\<rparr>],
          id_counter := Suc (id_counter s)\<rparr>)
       rentalId rest"

text \<open>\<open>RentalService.create\<close>: the thumbnail falls back to the first image, a gift
  card takes no discount, the row and the options are saved, and the rental is read
  again with its options.\<close>

definition RentalService_create :: "Store \<Rightarrow> CreateRentalInput \<Rightarrow> error + (Rental \<times> Store)" where
  "RentalService_create s rentalObject =
     (let thumbnail = (if \<not> truthy (ci_thumbnail rentalObject) then
                         (case ci_images rentalObject of
                            Some (img # _) \<Rightarrow> Some img
                          | _ \<Rightarrow> ci_thumbnail rentalObject)
                       else ci_thumbnail rentalObject);
          discountable = (if ci_is_giftcard rentalObject then False
                          else ci_discountable rentalObject);
          rental = \<lparr>rn_id = generateEntityId ''rental'' (id_counter s),
                    rn_title = ci_title rentalObject, rn_thumbnail = thumbnail,
                    rn_is_giftcard = ci_is_giftcard rentalObject,
                    rn_discountable = discountable,
                    rn_profile_id = ci_profile_id rentalObject, rn_deleted = False\<rparr>;
          s1 = s\<lparr>rental_table := rental_table s @ [rental], id_counter := Suc (id_counter s)\<rparr>;
          s2 = create_options s1 (rn_id rental)
                 (case ci_options rentalObject of None \<Rightarrow> [] | Some titles \<Rightarrow> titles)
      in case retrieve s2 (rn_id rental) [''options''] of
           Inl e \<Rightarrow> Inl e
         | Inr result \<Rightarrow> Inr (result, emit ''rental.created'' (r_id result) s2))"

text \<open>A variant in the body of the request, validated: its option values are given in
  the order of the declared options, and an inventory quantity that the request leaves
  out is 0.\<close>

record RentalVariantReq =
  rq_title :: string
  rq_inventory_quantity :: int
  rq_options :: "string list"
  rq_prices :: "RentalVariantPrice list"

record AdminPostRentalsReq =
  req_title :: string
  req_thumbnail :: "string option"
  req_images :: "string list option"
  req_is_giftcard :: bool
  req_discountable :: bool
  req_options :: "string list option"
  req_variants :: "RentalVariantReq list option"

text \<open>The shipping profile service of the host platform: the default profile and the
  default profile for gift cards, each of which may be missing.\<close>

record ShippingProfiles =
  sp_default :: "ident option"
  sp_gift_card :: "ident option"

text \<open>\<open>entityManager.transaction\<close>: the work runs on the manager of the transaction;
  when it returns, its writes are committed, and when it throws they are rolled back
  and the error is thrown on. The services reached through \<open>withTransaction(manager)\<close>
  run on that manager and open no transaction of their own.\<close>

definition transaction ::
  "(Store \<Rightarrow> error + ('a \<times> Store)) \<Rightarrow> Store \<Rightarrow> (error + 'a) \<times> Store" where
  "transaction work s =
     (case work s of
        Inl e \<Rightarrow> (Inl e, s)
      | Inr (result, s') \<Rightarrow> (Inr result, s'))"

text \<open>The rental the handler asks the rental service to create.\<close>

definition create_input :: "AdminPostRentalsReq \<Rightarrow> ident \<Rightarrow> CreateRentalInput" where
  "create_input validated profile_id =
     \<lparr>ci_title = req_title validated,
      ci_thumbnail = (if \<not> truthy (req_thumbnail validated) then
                        (case req_images validated of
                           Some (img # _) \<Rightarrow> Some img
                         | _ \<Rightarrow> req_thumbnail validated)
                      else req_thumbnail validated),
      ci_images = req_images validated,
      ci_is_giftcard = req_is_giftcard validated,
      ci_discountable = req_discountable validated,
      ci_profile_id = profile_id,
      ci_options = req_options validated\<rparr>"

text \<open>\<open>optionIds\<close>: for each declared option, the id of the created option with its
  title.\<close>

definition option_ids :: "AdminPostRentalsReq \<Rightarrow> Rental \<Rightarrow> ident option list" where
  "option_ids validated newRental =
     map (\<lambda>title. map_option opt_id (find (\<lambda>newO. opt_title newO = title) (r_options newRental)))
       (case req_options validated of None \<Rightarrow> [] | Some titles \<Rightarrow> titles)"

text \<open>The variant handed to the variant service: its rank is its position, and the
  option id of its value number \<open>index\<close> is \<open>optionIds[index]\<close>, which is
  \<open>undefined\<close> out of range.\<close>

definition variant_input ::
  "ident option list \<Rightarrow> nat \<Rightarrow> RentalVariantReq \<Rightarrow> CreateRentalVariantInput" where
  "variant_input optionIds i v =
     \<lparr>cv_title = Some (rq_title v),
      cv_variant_rank = Some (int i),
      cv_inventory_quantity = Some (rq_inventory_quantity v),
      cv_options = map (\<lambda>(index, value).
                          \<lparr>vo_option_id = (if index < length optionIds then optionIds ! index
                                            else None),
                           vo_value = value\<rparr>)
                     (enumerate 0 (rq_options v)),
      cv_prices = rq_prices v\<rparr>"

text \<open>The variants are created by the variant service, one call for each, all started
  together by \<open>Promise.all\<close> on the one connection of the transaction. Each call
  first reads the rental, and the reads of all the calls are queued before the first
  call goes on to save its variant: every call works on the rental as it is when the
  calls start, with none of the variants of the request. The writes follow in the order
  of the array, and a failure fails the work of the transaction; of several failures
  the one of the earliest variant is reported here.\<close>

fun create_each ::
  "Store \<Rightarrow> Rental \<Rightarrow> ident option list \<Rightarrow> (nat \<times> RentalVariantReq) list \<Rightarrow> error + Store" where
  "create_each s rental optionIds [] = Inr s"
| "create_each s rental optionIds ((i, v) # rest) =
     (case create_with_rental s rental (variant_input optionIds i v) of
        Inl e \<Rightarrow> Inl e
      | Inr (created, s1) \<Rightarrow> create_each s1 rental optionIds rest)"

definition create_variants ::
  "Store \<Rightarrow> ident \<Rightarrow> ident option list \<Rightarrow> (nat \<times> RentalVariantReq) list \<Rightarrow> error + Store" where
  "create_variants s rentalId optionIds variants =
     (if variants = [] then Inr s
      else (case resolve_rental s (RentalId rentalId) of
              Inl e \<Rightarrow> Inl e
            | Inr rental \<Rightarrow> create_each s rental optionIds variants))"

text \<open>The work of the transaction in the handler of \<open>POST /admin/rentals\<close>.\<close>

definition create_rental_work ::
  "ShippingProfiles \<Rightarrow> AdminPostRentalsReq \<Rightarrow> Store \<Rightarrow> error + (Rental \<times> Store)" where
  "create_rental_work profiles validated s =
     (case (if req_is_giftcard validated then sp_gift_card profiles else sp_default profiles) of
        None \<Rightarrow> Inl TYPE_ERROR
      | Some profile_id \<Rightarrow>
          (case RentalService_create s (create_input validated profile_id) of
             Inl e \<Rightarrow> Inl e
           | Inr (newRental, s1) \<Rightarrow>
               (case req_variants validated of
                  None \<Rightarrow> Inr (newRental, s1)
                | Some variants \<Rightarrow>
                    (case create_variants s1 (r_id newRental) (option_ids validated newRental)
                            (enumerate 0 variants) of
                       Inl e \<Rightarrow> Inl e
                     | Inr s2 \<Rightarrow> Inr (newRental, s2)))))"

text \<open>The handler: the transaction, then the rental is read for the response with the
  default relations of the admin routes.\<close>

definition defaultAdminRentalRelations :: "string list" where
  "defaultAdminRentalRelations =
     [''variants'', ''variants.prices'', ''variants.options'', ''images'', ''options'', ''tags'',
      ''type'', ''collection'']"

definition AdminPostRentals ::
  "ShippingProfiles \<Rightarrow> AdminPostRentalsReq \<Rightarrow> Store \<Rightarrow> (error + Rental) \<times> Store" where
  "AdminPostRentals profiles validated s =
     (case transaction (create_rental_work profiles validated) s of
        (Inl e, s') \<Rightarrow> (Inl e, s')
      | (Inr newRental, s') \<Rightarrow> (retrieve s' (r_id newRental) defaultAdminRentalRelations, s'))"

section \<open>Listing rentals with their relations\<close>




























section \<open>Sample data\<close>

text \<open>The stores, inputs and requests the theorems are tried on.\<close>

definition empty_store :: Store where
  "empty_store =
     \<lparr>rental_table = [], option_table = [], variant_table = [], option_value_table = [],
      money_amount_table = [], region_table = [], collection_table = [], events = [],
      id_counter = 0\<rparr>"

definition tent :: RentalRow where
  "tent = \<lparr>rn_id = ''rental_tent'', rn_title = ''Tent'', rn_thumbnail = None,
           rn_is_giftcard = False, rn_discountable = True, rn_profile_id = ''sp_default'',
           rn_deleted = False\<rparr>"

definition small :: RentalVariantRow where
  "small = \<lparr>var_id = ''variant_small'', var_title = ''Small'', var_rental_id = ''rental_tent'',
            var_rank = 0, var_inventory_quantity = 10, var_deleted = False\<rparr>"

definition large :: RentalVariantRow where
  "large = \<lparr>var_id = ''variant_large'', var_title = ''Large'', var_rental_id = ''rental_tent'',
            var_rank = 1, var_inventory_quantity = 10, var_deleted = False\<rparr>"

definition two_variant_store :: Store where
  "two_variant_store = empty_store\<lparr>rental_table := [tent], variant_table := [small, large]\<rparr>"

text \<open>A tent with the option Size and one variant, Small, whose size is S.\<close>

definition tent_size :: RentalOption where
  "tent_size = \<lparr>opt_id = ''opt_size'', opt_title = ''Size'', opt_rental_id = ''rental_tent'',
                  opt_deleted = False\<rparr>"

definition small_size :: RentalOptionValue where
  "small_size = \<lparr>ov_id = ''optval_s'', ov_value = ''S'', ov_option_id = ''opt_size'',
                 ov_variant_id = ''variant_small'', ov_deleted = False\<rparr>"

definition tent_store :: Store where
  "tent_store = empty_store\<lparr>rental_table := [tent], option_table := [tent_size],
                            variant_table := [small], option_value_table := [small_size]\<rparr>"

text \<open>An update of the tent's variants: a new variant Medium first, then the existing
  variant Small.\<close>

definition medium_then_small :: UpdateRentalInput where
  "medium_then_small =
     \<lparr>u_title = None, u_sales_channels = None,
      u_variants = Some
        [\<lparr>nv_id = None, nv_title = Some ''Medium'', nv_inventory_quantity = Some 5,
          nv_options = Some [\<lparr>vo_option_id = Some ''opt_size'', vo_value = ''M''\<rparr>],
          nv_prices = None\<rparr>,
         \<lparr>nv_id = Some ''variant_small'', nv_title = None, nv_inventory_quantity = None,
          nv_options = None,
          nv_prices = None\<rparr>]\<rparr>"

text \<open>The tent as \<open>create\<close> reads it: with its options, its variants and their
  options.\<close>

definition tent_loaded :: Rental where
  "tent_loaded = \<lparr>r_row = tent, r_options = [tent_size],
                  r_variants = [\<lparr>v_row = small, v_options = [small_size]\<rparr>]\<rparr>"

text \<open>A second variant for the tent, Medium, with a price in dollars; the variant and
  the store after it was created on \<open>tent_store\<close>.\<close>

definition medium_input :: CreateRentalVariantInput where
  "medium_input =
     \<lparr>cv_title = Some ''Medium'', cv_variant_rank = None, cv_inventory_quantity = Some 5,
      cv_options = [\<lparr>vo_option_id = Some ''opt_size'', vo_value = ''M''\<rparr>],
      cv_prices = [\<lparr>p_id = None, p_currency_code = Some ''usd'', p_region_id = None,
                    p_amount = 2000\<rparr>]\<rparr>"

definition medium_created :: RentalVariant where
  "medium_created =
     \<lparr>v_row = \<lparr>var_id = ''variant_'', var_title = ''Medium'', var_rental_id = ''rental_tent'',
               var_rank = 1, var_inventory_quantity = 5, var_deleted = False\<rparr>,
      v_options = [\<lparr>ov_id = ''optval_i'', ov_value = ''M'', ov_option_id = ''opt_size'',
                    ov_variant_id = ''variant_'', ov_deleted = False\<rparr>]\<rparr>"

definition medium_store :: Store where
  "medium_store =
     tent_store
       \<lparr>variant_table := [small, v_row medium_created],
        option_value_table := small_size # v_options medium_created,
        money_amount_table :=
          [\<lparr>ma_id = ''ma_ii'', ma_variant_id = ''variant_'', ma_region_id = None,
            ma_currency_code = Some ''usd'', ma_price_list_id = None, ma_amount = 2000,
            ma_deleted = False\<rparr>],
        events := [Event ''rental-variant.created'' ''variant_''],
        id_counter := 3\<rparr>"

text \<open>A variant for the tent with the size of Small.\<close>

definition small_again :: CreateRentalVariantInput where
  "small_again =
     \<lparr>cv_title = Some ''Small again'', cv_variant_rank = None, cv_inventory_quantity = Some 5,
      cv_options = [\<lparr>vo_option_id = Some ''opt_size'', vo_value = ''S''\<rparr>],
      cv_prices = []\<rparr>"

text \<open>The tent store with a second rental, a stove, whose option is its fuel.\<close>

definition stove :: RentalRow where
  "stove = \<lparr>rn_id = ''rental_stove'', rn_title = ''Stove'', rn_thumbnail = None,
            rn_is_giftcard = False, rn_discountable = True, rn_profile_id = ''sp_default'',
            rn_deleted = False\<rparr>"

definition stove_fuel :: RentalOption where
  "stove_fuel = \<lparr>opt_id = ''opt_fuel'', opt_title = ''Fuel'', opt_rental_id = ''rental_stove'',
                 opt_deleted = False\<rparr>"

definition camping_store :: Store where
  "camping_store = tent_store\<lparr>rental_table := [tent, stove],
                              option_table := [tent_size, stove_fuel]\<rparr>"



text \<open>A request for a tent with the option Size and one variant that gives no value
  for it; and the same request with the value.\<close>

definition profiles :: ShippingProfiles where
  "profiles = \<lparr>sp_default = Some ''sp_default'', sp_gift_card = Some ''sp_gift''\<rparr>"

definition tent_request :: "string list \<Rightarrow> AdminPostRentalsReq" where
  "tent_request values =
     \<lparr>req_title = ''Tent'', req_thumbnail = None, req_images = None, req_is_giftcard = False,
      req_discountable = True, req_options = Some [''Size''],
      req_variants = Some [\<lparr>rq_title = ''Small'', rq_inventory_quantity = 0, rq_options = values,
                          rq_prices = []\<rparr>]\<rparr>"

text \<open>A request for a tent with two variants of the same size.\<close>

definition twin_request :: AdminPostRentalsReq where
  "twin_request =
     \<lparr>req_title = ''Tent'', req_thumbnail = None, req_images = None, req_is_giftcard = False,
      req_discountable = True, req_options = Some [''Size''],
      req_variants = Some [\<lparr>rq_title = ''Small'', rq_inventory_quantity = 0,
                            rq_options = [''S''], rq_prices = []\<rparr>,
                          \<lparr>rq_title = ''Small twin'', rq_inventory_quantity = 0,
                            rq_options = [''S''], rq_prices = []\<rparr>]\<rparr>"

text \<open>The rental and the store after \<open>RentalService.create\<close> ran for the request of
  one variant on the empty store.\<close>

definition new_tent :: Rental where
  "new_tent =
     \<lparr>r_row = \<lparr>rn_id = ''rental_'', rn_title = ''Tent'', rn_thumbnail = None,
               rn_is_giftcard = False, rn_discountable = True, rn_profile_id = ''sp_default'',
               rn_deleted = False\<rparr>,
      r_options = [\<lparr>opt_id = ''opt_i'', opt_title = ''Size'', opt_rental_id = ''rental_'',
                    opt_deleted = False\<rparr>],
      r_variants = []\<rparr>"

definition new_tent_store :: Store where
  "new_tent_store =
     empty_store\<lparr>rental_table := [r_row new_tent], option_table := r_options new_tent,
                  events := [Event ''rental.created'' ''rental_''], id_counter := 2\<rparr>"








section \<open>Theorems\<close>

subsection \<open>Deletions\<close>

lemma RentalService_delete_missing:
  "findOne_rental s rentalId [''variants'', ''variants.prices'', ''variants.options''] = None
   \<Longrightarrow> RentalService_delete s rentalId = Inr s"
  by (simp add: RentalService_delete_def)

lemma RentalVariantService_delete_missing:
  "find (\<lambda>v. var_id v = variantId \<and> \<not> var_deleted v) (variant_table s) = None
   \<Longrightarrow> RentalVariantService_delete s variantId = Inr s"
  by (simp add: RentalVariantService_delete_def)

lemma deleteOptionValue_missing:
  "find (\<lambda>ov. ov_variant_id ov = variantId \<and> ov_option_id ov = optionId \<and> \<not> ov_deleted ov)
     (option_value_table s) = None
   \<Longrightarrow> deleteOptionValue s variantId optionId = Inr s"
  by (simp add: deleteOptionValue_def)

text \<open>
  Claim C3. Every delete of the services is idempotent: an id that does not exist, or
  was already deleted, is a no-op that returns successfully. The rental, variant and
  option-value deletes behave so (the three lemmas above); the collection delete does not:
  for every store with no live collection of the given id it throws NotFound.
\<close>

theorem collection_delete_missing_throws:
  "find (\<lambda>c. col_id c = collectionId \<and> \<not> col_deleted c) (collection_table s) = None
   \<Longrightarrow> RentalCollectionService_delete s collectionId = Inl NOT_FOUND"
  by (simp add: RentalCollectionService_delete_def RentalCollectionService_retrieve_def)

theorem collection_delete_missing_throws_witness:
  "find (\<lambda>c. col_id c = ''pcol_gone'' \<and> \<not> col_deleted c) (collection_table empty_store) = None
   \<and> RentalCollectionService_delete empty_store ''pcol_gone'' = Inl NOT_FOUND"
  using collection_delete_missing_throws [of "''pcol_gone''" empty_store]
  by (simp add: empty_store_def)

subsection \<open>Reordering variants\<close>

lemma find_v_id: "find (\<lambda>v. v_id v = vId) vs = Some x \<Longrightarrow> v_id x = vId \<and> x \<in> set vs"
  by (induction vs) (auto split: if_splits)

lemma find_v_id_ex: "vId \<in> v_id ` set vs \<Longrightarrow> \<exists>x. find (\<lambda>v. v_id v = vId) vs = Some x"
  by (induction vs) auto

lemma reorder_map_ok:
  "\<forall>vId \<in> set order. vId \<in> v_id ` set vs \<Longrightarrow>
   reorder_map vs order = Inr (map (\<lambda>vId. the (find (\<lambda>v. v_id v = vId) vs)) order)
   \<and> map v_id (map (\<lambda>vId. the (find (\<lambda>v. v_id v = vId) vs)) order) = order"
proof (induction order)
  case Nil
  then show ?case by simp
next
  case (Cons vId rest)
  then obtain x where x: "find (\<lambda>v. v_id v = vId) vs = Some x"
    using find_v_id_ex [of vId vs] by auto
  from Cons have rest: "reorder_map vs rest
      = Inr (map (\<lambda>vId. the (find (\<lambda>v. v_id v = vId) vs)) rest)"
    "map v_id (map (\<lambda>vId. the (find (\<lambda>v. v_id v = vId) vs)) rest) = rest"
    by auto
  show ?case using x rest find_v_id [OF x] by simp
qed

text \<open>The variants a rental was read with are the live stored variants of the rental.\<close>

lemma retrieved_variant_ids:
  assumes "retrieve s rentalId [''variants''] = Inr rental"
  shows "r_id rental = rentalId
         \<and> map v_id (r_variants rental) = map var_id (rental_variant_rows s rentalId)"
proof -
  from assms obtain row where
    row: "find (\<lambda>r. rn_id r = rentalId \<and> \<not> rn_deleted r) (rental_table s) = Some row"
    and rental: "rental = load_rental s [''variants''] row"
    by (auto simp: retrieve_def findOne_rental_def split: option.splits)
  from row have "rn_id row = rentalId" by (auto simp: find_Some_iff)
  then show ?thesis
    by (simp add: rental load_rental_def load_variant_def toplevel_def)
qed

text \<open>The save goes through exactly when the new collection still holds every variant
  of the rental.\<close>

lemma save_variants_collection_iff:
  assumes r: "retrieve s rentalId [''variants''] = Inr rental"
  shows "save_variants_collection (rental\<lparr>r_variants := vs\<rparr>) s
         = (if v_id ` set (r_variants rental) \<subseteq> v_id ` set vs then Inr s else Inl QUERY_FAILED)"
proof -
  from retrieved_variant_ids [OF r] have rid: "r_id rental = rentalId"
    and ids: "map v_id (r_variants rental) = map var_id (rental_variant_rows s rentalId)"
    by simp_all
  have "v_id ` set (r_variants rental) = var_id ` set (rental_variant_rows s rentalId)"
    using arg_cong [OF ids, of set] by simp
  then have "(detached_variants s (rental\<lparr>r_variants := vs\<rparr>) = [])
             = (v_id ` set (r_variants rental) \<subseteq> v_id ` set vs)"
    by (auto simp: detached_variants_def rid filter_empty_conv)
  then show ?thesis by (simp add: save_variants_collection_def)
qed

lemma distinct_order_keeps_all:
  assumes len: "length order = length vs" and cur: "set order \<subseteq> v_id ` set vs"
    and d: "distinct order"
  shows "v_id ` set vs \<subseteq> set order"
proof -
  have "card (v_id ` set vs) \<le> length vs"
    using card_image_le [of "set vs" v_id] card_length [of vs] by simp
  also have "\<dots> = card (set order)"
    using len distinct_card [OF d] by simp
  finally have "card (v_id ` set vs) \<le> card (set order)" .
  with cur have "set order = v_id ` set vs"
    by (simp add: card_seteq)
  then show ?thesis by simp
qed

lemma repeated_order_drops_one:
  assumes len: "length order = length vs" and rep: "\<not> distinct order"
    and pk: "distinct (map v_id vs)"
  shows "\<not> v_id ` set vs \<subseteq> set order"
proof
  assume "v_id ` set vs \<subseteq> set order"
  then have "card (v_id ` set vs) \<le> card (set order)"
    by (simp add: card_mono)
  moreover have "card (v_id ` set vs) = length vs"
    using distinct_card [OF pk] by simp
  moreover have "card (set order) < length order"
    using rep card_length [of order] card_distinct [of order] by linarith
  ultimately show False using len by simp
qed

text \<open>
  Claim C10 says that an id list with a repeated id is accepted and yields a collection
  that holds a variant twice. On the tent with its two variants Small and Large, the
  list that names Small twice has the length of the variants and names current variants
  only; \<open>reorderVariants\<close> maps it, the save of the rental would detach Large, and the
  call fails.
\<close>

theorem reorderVariants_repeated_id_counterexample:
  "retrieve two_variant_store ''rental_tent'' [''variants'']
     = Inr \<lparr>r_row = tent, r_options = [],
            r_variants = [\<lparr>v_row = small, v_options = []\<rparr>, \<lparr>v_row = large, v_options = []\<rparr>]\<rparr>
   \<and> var_id small = ''variant_small''
   \<and> reorderVariants two_variant_store ''rental_tent'' [''variant_small'', ''variant_small'']
     = Inl QUERY_FAILED"
  by code_simp

text \<open>
  Claim C10, amended. For a rental and an id list of the length of the rental's current
  variants whose every element is the id of a current variant: when the list names no id
  twice, \<open>reorderVariants\<close> succeeds, the new collection is the id list mapped, element
  by element, to the variant with that id, and the store gains the event and nothing
  else; when the list names an id twice, the ids of the current variants being distinct,
  the mapped collection lacks a current variant, the save is rejected and the call fails
  with the store unchanged. A reordering that succeeds keeps the set of variants.
\<close>

theorem reorderVariants_needs_every_variant:
  assumes r: "retrieve s rentalId [''variants''] = Inr rental"
    and len: "length variantOrder = length (r_variants rental)"
    and cur: "\<forall>vId \<in> set variantOrder. vId \<in> v_id ` set (r_variants rental)"
  shows "(distinct variantOrder \<longrightarrow>
            reorderVariants s rentalId variantOrder
            = Inr (rental\<lparr>r_variants :=
                             map (\<lambda>vId. the (find (\<lambda>v. v_id v = vId) (r_variants rental)))
                               variantOrder\<rparr>,
                   s\<lparr>events := events s @ [Event ''rental.updated'' rentalId]\<rparr>))
         \<and> (\<not> distinct variantOrder \<and> distinct (map v_id (r_variants rental)) \<longrightarrow>
            reorderVariants s rentalId variantOrder = Inl QUERY_FAILED)"
proof -
  let ?vs = "map (\<lambda>vId. the (find (\<lambda>v. v_id v = vId) (r_variants rental))) variantOrder"
  from reorder_map_ok [OF cur] have out:
    "reorder_map (r_variants rental) variantOrder = Inr ?vs" "map v_id ?vs = variantOrder"
    by simp_all
  have ids: "v_id ` set ?vs = set variantOrder"
    using arg_cong [OF out(2), of set] by (simp add: image_image)
  have run: "reorderVariants s rentalId variantOrder
             = (if v_id ` set (r_variants rental) \<subseteq> set variantOrder
                then Inr (rental\<lparr>r_variants := ?vs\<rparr>, emit ''rental.updated'' rentalId s)
                else Inl QUERY_FAILED)"
    using r len out(1) ids
    by (simp add: reorderVariants_def save_variants_collection_iff [OF r])
  have keep: "distinct variantOrder \<Longrightarrow> v_id ` set (r_variants rental) \<subseteq> set variantOrder"
    using distinct_order_keeps_all [OF len] cur by blast
  have drop: "\<not> distinct variantOrder \<Longrightarrow> distinct (map v_id (r_variants rental))
              \<Longrightarrow> \<not> v_id ` set (r_variants rental) \<subseteq> set variantOrder"
    using repeated_order_drops_one [OF len] by blast
  show ?thesis
    using run keep drop by (auto simp: emit_def)
qed

lemma retrieve_two_variant_store:
  "retrieve two_variant_store ''rental_tent'' [''variants'']
   = Inr \<lparr>r_row = tent, r_options = [],
          r_variants = [\<lparr>v_row = small, v_options = []\<rparr>, \<lparr>v_row = large, v_options = []\<rparr>]\<rparr>"
  by (simp add: retrieve_def findOne_rental_def load_rental_def load_variant_def
      rental_variant_rows_def toplevel_def two_variant_store_def empty_store_def tent_def
      small_def large_def)

theorem reorderVariants_needs_every_variant_witness:
  "retrieve two_variant_store ''rental_tent'' [''variants'']
     = Inr \<lparr>r_row = tent, r_options = [],
            r_variants = [\<lparr>v_row = small, v_options = []\<rparr>, \<lparr>v_row = large, v_options = []\<rparr>]\<rparr>
   \<and> reorderVariants two_variant_store ''rental_tent'' [''variant_large'', ''variant_small'']
     = Inr (\<lparr>r_row = tent, r_options = [],
             r_variants = [\<lparr>v_row = large, v_options = []\<rparr>, \<lparr>v_row = small, v_options = []\<rparr>]\<rparr>,
            two_variant_store\<lparr>events := [Event ''rental.updated'' ''rental_tent'']\<rparr>)
   \<and> reorderVariants two_variant_store ''rental_tent'' [''variant_large'', ''variant_large'']
     = Inl QUERY_FAILED"
proof -
  let ?r = "\<lparr>r_row = tent, r_options = [],
            r_variants = [\<lparr>v_row = small, v_options = []\<rparr>, \<lparr>v_row = large, v_options = []\<rparr>]\<rparr>"
  have ok: "reorderVariants two_variant_store ''rental_tent'' [''variant_large'', ''variant_small'']
     = Inr (\<lparr>r_row = tent, r_options = [],
             r_variants = [\<lparr>v_row = large, v_options = []\<rparr>, \<lparr>v_row = small, v_options = []\<rparr>]\<rparr>,
            two_variant_store\<lparr>events := [Event ''rental.updated'' ''rental_tent'']\<rparr>)"
    using reorderVariants_needs_every_variant [OF retrieve_two_variant_store,
        of "[''variant_large'', ''variant_small'']"]
    by (simp add: small_def large_def two_variant_store_def empty_store_def)
  have bad: "reorderVariants two_variant_store ''rental_tent'' [''variant_large'', ''variant_large'']
     = Inl QUERY_FAILED"
    using reorderVariants_needs_every_variant [OF retrieve_two_variant_store,
        of "[''variant_large'', ''variant_large'']"]
    by (simp add: small_def large_def)
  from ok bad retrieve_two_variant_store show ?thesis by simp
qed

subsection \<open>Ranks of the variants after an update\<close>

text \<open>
  Claim C2. After \<open>RentalService.update\<close> with a variants array, every variant of the
  rental, created or updated, has the rank of its position in the array. On the tent
  with its variant Small, the update that puts a new variant Medium at position 0 and
  Small at position 1 succeeds, and both variants end with rank 1: \<open>create\<close> takes the
  rank 0 it is given for no rank and puts the number of the rental's variants in its
  place.
\<close>

theorem update_new_variant_first_rank:
  "(case RentalService_update False tent_store ''rental_tent'' medium_then_small of
      Inl e \<Rightarrow> None
    | Inr (rental, s') \<Rightarrow>
        Some (map (\<lambda>v. (var_title (v_row v), var_rank (v_row v))) (r_variants rental),
              map (\<lambda>v. (var_title v, var_rank v)) (rental_variant_rows s' ''rental_tent'')))
   = Some ([(''Medium'', 1), (''Small'', 1)], [(''Small'', 1), (''Medium'', 1)])"
  by code_simp

subsection \<open>Creating a variant\<close>

text \<open>
  Claim C4. For a rental with N options, \<open>create\<close> with a variant whose option values
  do not cover the options of the rental exactly (their number is not N, or an option of
  the rental has no supplied value with its id) fails with InvalidData.
\<close>

theorem create_rejects_uncovered_options:
  assumes res: "resolve_rental s rentalOrRentalId = Inr rental"
    and bad: "length (cv_options variant) \<noteq> length (r_options rental)
              \<or> (\<exists>option \<in> set (r_options rental).
                    Some (opt_id option) \<notin> vo_option_id ` set (cv_options variant))"
  shows "RentalVariantService_create s rentalOrRentalId variant = Inl INVALID_DATA"
proof (cases "length (r_options rental) = length (cv_options variant)")
  case False
  then show ?thesis using res by (simp add: RentalVariantService_create_def create_with_rental_def)
next
  case True
  with bad obtain option where o: "option \<in> set (r_options rental)"
    "Some (opt_id option) \<notin> vo_option_id ` set (cv_options variant)"
    by auto
  then have "find (\<lambda>vo. Some (opt_id option) = vo_option_id vo) (cv_options variant) = None"
    by (auto simp: find_None_iff)
  with o(1) have "list_ex (\<lambda>option. find (\<lambda>vo. Some (opt_id option) = vo_option_id vo)
                                       (cv_options variant) = None) (r_options rental)"
    by (auto simp: list_ex_iff)
  then show ?thesis using res True by (simp add: RentalVariantService_create_def create_with_rental_def)
qed

lemma resolve_tent: "resolve_rental tent_store (RentalId ''rental_tent'') = Inr tent_loaded"
  by (simp add: findOne_rental_def load_rental_def load_variant_def rental_variant_rows_def
      rental_options_def variant_options_def toplevel_def tent_store_def empty_store_def
      tent_loaded_def tent_def small_def tent_size_def small_size_def)

theorem create_rejects_uncovered_options_witness:
  "resolve_rental tent_store (RentalId ''rental_tent'') = Inr tent_loaded
   \<and> length (cv_options \<lparr>cv_title = Some ''Medium'', cv_variant_rank = None,
                          cv_inventory_quantity = Some 5, cv_options = [], cv_prices = []\<rparr>)
       \<noteq> length (r_options tent_loaded)
   \<and> RentalVariantService_create tent_store (RentalId ''rental_tent'')
        \<lparr>cv_title = Some ''Medium'', cv_variant_rank = None, cv_inventory_quantity = Some 5,
          cv_options = [], cv_prices = []\<rparr>
      = Inl INVALID_DATA"
proof -
  have "RentalVariantService_create tent_store (RentalId ''rental_tent'')
          \<lparr>cv_title = Some ''Medium'', cv_variant_rank = None, cv_inventory_quantity = Some 5,
          cv_options = [], cv_prices = []\<rparr>
        = Inl INVALID_DATA"
    using create_rejects_uncovered_options [OF resolve_tent,
        of "\<lparr>cv_title = Some ''Medium'', cv_variant_rank = None, cv_inventory_quantity = Some 5,
          cv_options = [], cv_prices = []\<rparr>"]
    by (simp add: tent_loaded_def)
  then show ?thesis
    using resolve_tent by (simp add: tent_loaded_def del: resolve_rental.simps)
qed

lemma find_distinct_key:
  "distinct (map f xs) \<Longrightarrow> x \<in> set xs \<Longrightarrow> find (\<lambda>y. f y = f x) xs = Some x"
  by (induction xs) (auto simp: image_iff)

text \<open>The test of \<open>create\<close> on an existing variant, spelled out: each option value
  of the existing variant has a supplied value for its option, and the first such
  supplied value is equal to it.\<close>

lemma same_option_values_iff:
  "same_option_values supplied v
   = (\<forall>ov \<in> set (v_options v).
        \<exists>vo. find (\<lambda>vo. Some (ov_option_id ov) = vo_option_id vo) supplied = Some vo
             \<and> vo_value vo = ov_value ov)"
  unfolding same_option_values_def supplied_value_def list_all_iff
proof (rule ball_cong [OF refl])
  fix ov
  show "(Some (ov_value ov)
         = map_option vo_value (find (\<lambda>vo. Some (ov_option_id ov) = vo_option_id vo) supplied))
        = (\<exists>vo. find (\<lambda>vo. Some (ov_option_id ov) = vo_option_id vo) supplied = Some vo
                \<and> vo_value vo = ov_value ov)"
    by (cases "find (\<lambda>vo. Some (ov_option_id ov) = vo_option_id vo) supplied") auto
qed

lemma set_prices_error: "set_prices s vid ps = Inl e \<Longrightarrow> e = NOT_FOUND"
proof (induction ps arbitrary: s)
  case Nil
  then show ?case by simp
next
  case (Cons p ps)
  show ?case
  proof (cases "truthy (p_region_id p)")
    case True
    show ?thesis
    proof (cases "regionService_retrieve s (the (p_region_id p))")
      case (Inl e')
      then have "e' = NOT_FOUND"
        by (auto simp: regionService_retrieve_def split: option.splits)
      with Cons.prems True Inl show ?thesis by simp
    next
      case (Inr c)
      with Cons.prems True Cons.IH show ?thesis by simp
    qed
  next
    case False
    with Cons.prems Cons.IH show ?thesis by simp
  qed
qed

lemma insert_variant_error: "insert_variant s rid v rank = Inl e \<Longrightarrow> e = QUERY_FAILED"
  by (auto simp: insert_variant_def Let_def split: option.splits if_splits)

text \<open>Once the two tests on the supplied values are passed, DuplicateError is the
  outcome exactly when the search finds a variant.\<close>

lemma create_duplicate_iff:
  assumes res: "resolve_rental s rentalOrRentalId = Inr rental"
    and len: "length (cv_options variant) = length (r_options rental)"
    and cover: "\<forall>option \<in> set (r_options rental).
                  Some (opt_id option) \<in> vo_option_id ` set (cv_options variant)"
  shows "(RentalVariantService_create s rentalOrRentalId variant = Inl DUPLICATE_ERROR)
         = (\<exists>existing \<in> set (r_variants rental).
              same_option_values (cv_options variant) existing)"
proof -
  have c: "\<not> list_ex (\<lambda>option. find (\<lambda>vo. Some (opt_id option) = vo_option_id vo)
                                    (cv_options variant) = None) (r_options rental)"
    using cover by (auto simp: list_ex_iff find_None_iff)
  show ?thesis
  proof (cases "find (same_option_values (cv_options variant)) (r_variants rental)")
    case None
    then have no: "\<not> (\<exists>existing \<in> set (r_variants rental).
                        same_option_values (cv_options variant) existing)"
      by (auto simp: find_None_iff)
    have "RentalVariantService_create s rentalOrRentalId variant \<noteq> Inl DUPLICATE_ERROR"
    proof
      assume dup: "RentalVariantService_create s rentalOrRentalId variant = Inl DUPLICATE_ERROR"
      define rank where "rank = (case cv_variant_rank variant of
                                   None \<Rightarrow> int (length (r_variants rental))
                                 | Some k \<Rightarrow> if k = 0 then int (length (r_variants rental)) else k)"
      have run: "RentalVariantService_create s rentalOrRentalId variant
                 = (case insert_variant s (r_id rental) variant rank of
                      Inl e \<Rightarrow> Inl e
                    | Inr (result, s1) \<Rightarrow>
                        (case set_prices s1 (v_id result) (cv_prices variant) of
                           Inl e \<Rightarrow> Inl e
                         | Inr s2 \<Rightarrow>
                             Inr (result, emit ''rental-variant.created'' (v_id result) s2)))"
        using res len c None
        by (simp add: RentalVariantService_create_def create_with_rental_def rank_def)
      show False
      proof (cases "insert_variant s (r_id rental) variant rank")
        case (Inl e)
        with insert_variant_error [OF Inl] dup run show False by simp
      next
        case (Inr p)
        obtain result s1 where p: "p = (result, s1)" by (cases p)
        show False
        proof (cases "set_prices s1 (v_id result) (cv_prices variant)")
          case (Inl e)
          with set_prices_error [OF Inl] dup run Inr p show False by simp
        next
          case (Inr s2)
          with dup run \<open>insert_variant s (r_id rental) variant rank = Inr p\<close> p
          show False by simp
        qed
      qed
    qed
    with no show ?thesis by simp
  next
    case (Some x)
    then have "x \<in> set (r_variants rental)" "same_option_values (cv_options variant) x"
      by (auto simp: find_Some_iff)
    moreover have "RentalVariantService_create s rentalOrRentalId variant = Inl DUPLICATE_ERROR"
      using res len c Some
      by (simp add: RentalVariantService_create_def create_with_rental_def)
    ultimately show ?thesis by blast
  qed
qed

text \<open>An existing variant that holds one value for each option of the rental, and no
  other value, passes the test when the supplied values are the same, option by
  option.\<close>

lemma identical_assignment_matches:
  assumes one: "distinct (map ov_option_id (v_options existing))"
    and own: "ov_option_id ` set (v_options existing) \<subseteq> opt_id ` set (r_options rental)"
    and same: "\<forall>option \<in> set (r_options rental).
                 \<exists>ov vo. find (\<lambda>ov. ov_option_id ov = opt_id option) (v_options existing) = Some ov
                       \<and> find (\<lambda>vo. Some (opt_id option) = vo_option_id vo) (cv_options variant)
                           = Some vo
                       \<and> vo_value vo = ov_value ov"
  shows "same_option_values (cv_options variant) existing"
  unfolding same_option_values_iff
proof
  fix ov assume ov: "ov \<in> set (v_options existing)"
  then obtain option where o: "option \<in> set (r_options rental)" "ov_option_id ov = opt_id option"
    using own by auto
  from same o(1) obtain ov' vo where
    f: "find (\<lambda>ov. ov_option_id ov = opt_id option) (v_options existing) = Some ov'"
    and g: "find (\<lambda>vo. Some (opt_id option) = vo_option_id vo) (cv_options variant) = Some vo"
    and v: "vo_value vo = ov_value ov'"
    by blast
  from find_distinct_key [OF one ov] o(2) f have "ov' = ov" by simp
  with g v o(2)
  show "\<exists>vo. find (\<lambda>vo. Some (ov_option_id ov) = vo_option_id vo) (cv_options variant) = Some vo
             \<and> vo_value vo = ov_value ov"
    by simp
qed

lemma save_new_money_amount_frame:
  "rental_table (snd (save_new_money_amount s vid p)) = rental_table s
   \<and> option_table (snd (save_new_money_amount s vid p)) = option_table s
   \<and> variant_table (snd (save_new_money_amount s vid p)) = variant_table s
   \<and> option_value_table (snd (save_new_money_amount s vid p)) = option_value_table s
   \<and> region_table (snd (save_new_money_amount s vid p)) = region_table s"
  by (simp add: save_new_money_amount_def Let_def split: option.splits)

lemma setRegionPrice_frame:
  "rental_table (snd (setRegionPrice s vid p)) = rental_table s
   \<and> option_table (snd (setRegionPrice s vid p)) = option_table s
   \<and> variant_table (snd (setRegionPrice s vid p)) = variant_table s
   \<and> option_value_table (snd (setRegionPrice s vid p)) = option_value_table s
   \<and> region_table (snd (setRegionPrice s vid p)) = region_table s"
  by (simp add: setRegionPrice_def save_new_money_amount_frame split: option.splits)

lemma setCurrencyPrice_frame:
  "rental_table (snd (setCurrencyPrice s vid p)) = rental_table s
   \<and> option_table (snd (setCurrencyPrice s vid p)) = option_table s
   \<and> variant_table (snd (setCurrencyPrice s vid p)) = variant_table s
   \<and> option_value_table (snd (setCurrencyPrice s vid p)) = option_value_table s
   \<and> region_table (snd (setCurrencyPrice s vid p)) = region_table s"
  by (simp add: setCurrencyPrice_def save_new_money_amount_frame split: option.splits)

lemma set_prices_frame:
  "set_prices s vid ps = Inr s' \<Longrightarrow>
   rental_table s' = rental_table s \<and> option_table s' = option_table s
   \<and> variant_table s' = variant_table s \<and> option_value_table s' = option_value_table s"
proof (induction ps arbitrary: s)
  case Nil
  then show ?case by simp
next
  case (Cons p ps)
  show ?case
  proof (cases "truthy (p_region_id p)")
    case True
    with Cons.prems obtain c where
      "set_prices (snd (setRegionPrice s vid
          \<lparr>p_id = None, p_currency_code = Some c, p_region_id = p_region_id p,
           p_amount = p_amount p\<rparr>)) vid ps = Inr s'"
      by (auto split: sum.splits)
    from Cons.IH [OF this] show ?thesis by (simp add: setRegionPrice_frame)
  next
    case False
    with Cons.prems have "set_prices (snd (setCurrencyPrice s vid p)) vid ps = Inr s'"
      by simp
    from Cons.IH [OF this] show ?thesis by (simp add: setCurrencyPrice_frame)
  qed
qed

lemma emit_frame:
  "rental_table (emit n i s) = rental_table s \<and> option_table (emit n i s) = option_table s
   \<and> variant_table (emit n i s) = variant_table s
   \<and> option_value_table (emit n i s) = option_value_table s"
  by (simp add: emit_def)

lemma map_enumerate_snd: "map (\<lambda>(k, x). f x) (enumerate n xs) = map f xs"
  by (induction xs arbitrary: n) auto

text \<open>What a successful create did.\<close>

lemma create_success:
  assumes ok: "RentalVariantService_create s arg variant = Inr (created, s1)"
  shows "\<exists>rental. resolve_rental s arg = Inr rental
           \<and> length (r_options rental) = length (cv_options variant)
           \<and> (\<forall>option \<in> set (r_options rental).
                 Some (opt_id option) \<in> vo_option_id ` set (cv_options variant))
           \<and> (\<forall>vo \<in> set (cv_options variant). vo_option_id vo \<noteq> None)
           \<and> rental_table s1 = rental_table s \<and> option_table s1 = option_table s
           \<and> variant_table s1 = variant_table s @ [v_row created]
           \<and> option_value_table s1 = option_value_table s @ v_options created
           \<and> var_id (v_row created) = generateEntityId ''variant'' (id_counter s)
           \<and> var_rental_id (v_row created) = r_id rental \<and> \<not> var_deleted (v_row created)
           \<and> map (\<lambda>ov. (Some (ov_option_id ov), ov_value ov, ov_variant_id ov, ov_deleted ov))
                 (v_options created)
             = map (\<lambda>vo. (vo_option_id vo, vo_value vo, v_id created, False)) (cv_options variant)"
proof -
  from ok obtain rental where res: "resolve_rental s arg = Inr rental"
    by (auto simp: RentalVariantService_create_def split: sum.splits)
  from ok res have cr: "create_with_rental s rental variant = Inr (created, s1)"
    by (simp add: RentalVariantService_create_def)
  from cr have len: "length (r_options rental) = length (cv_options variant)"
    by (auto simp: create_with_rental_def split: if_splits)
  from cr len have cov: "\<not> list_ex (\<lambda>option. find (\<lambda>vo. Some (opt_id option) = vo_option_id vo)
                                    (cv_options variant) = None) (r_options rental)"
    by (auto simp: create_with_rental_def split: if_splits)
  define rank where "rank = (case cv_variant_rank variant of
                                None \<Rightarrow> int (length (r_variants rental))
                              | Some k \<Rightarrow> if k = 0 then int (length (r_variants rental)) else k)"
  from cr len cov obtain s0 s2 where
    ins: "insert_variant s (r_id rental) variant rank = Inr (created, s0)"
    and pr: "set_prices s0 (v_id created) (cv_prices variant) = Inr s2"
    and s1: "s1 = emit ''rental-variant.created'' (v_id created) s2"
    unfolding create_with_rental_def rank_def
    by (auto simp: Let_def split: sum.splits option.splits if_splits)
  from ins obtain title quantity where t: "cv_title variant = Some title"
    and q: "cv_inventory_quantity variant = Some quantity"
    and noNone: "\<not> list_ex (\<lambda>vo. vo_option_id vo = None) (cv_options variant)"
    by (auto simp: insert_variant_def split: option.splits if_splits)
  from ins t q noNone have
    row: "v_row created = \<lparr>var_id = generateEntityId ''variant'' (id_counter s), var_title = title,
                           var_rental_id = r_id rental, var_rank = rank,
                           var_inventory_quantity = quantity, var_deleted = False\<rparr>"
    and ovs: "v_options created
              = map (\<lambda>(k, vo). \<lparr>ov_id = generateEntityId ''optval'' (Suc (id_counter s) + k),
                                 ov_value = vo_value vo, ov_option_id = the (vo_option_id vo),
                                 ov_variant_id = generateEntityId ''variant'' (id_counter s),
                                 ov_deleted = False\<rparr>) (enumerate 0 (cv_options variant))"
    and s0: "rental_table s0 = rental_table s" "option_table s0 = option_table s"
      "variant_table s0 = variant_table s @ [v_row created]"
      "option_value_table s0 = option_value_table s @ v_options created"
    by (auto simp: insert_variant_def Let_def)
  have some: "\<forall>vo \<in> set (cv_options variant). vo_option_id vo \<noteq> None"
    using noNone by (auto simp: list_ex_iff)
  have m: "map (\<lambda>ov. (Some (ov_option_id ov), ov_value ov, ov_variant_id ov, ov_deleted ov))
             (v_options created)
           = map (\<lambda>vo. (vo_option_id vo, vo_value vo, v_id created, False)) (cv_options variant)"
  proof -
    have "map (\<lambda>ov. (Some (ov_option_id ov), ov_value ov, ov_variant_id ov, ov_deleted ov))
             (v_options created)
          = map (\<lambda>(k, vo). (Some (the (vo_option_id vo)), vo_value vo, v_id created, False))
              (enumerate 0 (cv_options variant))"
      by (simp add: ovs row case_prod_beta)
    also have "\<dots> = map (\<lambda>vo. (Some (the (vo_option_id vo)), vo_value vo, v_id created, False))
                       (cv_options variant)"
      by (rule map_enumerate_snd)
    also have "\<dots> = map (\<lambda>vo. (vo_option_id vo, vo_value vo, v_id created, False))
                       (cv_options variant)"
      using some by auto
    finally show ?thesis .
  qed
  have cover: "\<forall>option \<in> set (r_options rental).
                 Some (opt_id option) \<in> vo_option_id ` set (cv_options variant)"
    using cov by (auto simp: list_ex_iff find_None_iff)
  from set_prices_frame [OF pr] s0 s1 emit_frame [of "''rental-variant.created''" "v_id created" s2]
  have tabs: "rental_table s1 = rental_table s" "option_table s1 = option_table s"
    "variant_table s1 = variant_table s @ [v_row created]"
    "option_value_table s1 = option_value_table s @ v_options created"
    by simp_all
  show ?thesis
    using res len cover some tabs row m by simp
qed

lemma first_supplied_unique:
  assumes one: "distinct (map vo_option_id first)" and vo: "vo \<in> set first"
    and eq: "set second = set first" and k: "vo_option_id vo = Some oid"
  shows "find (\<lambda>vo'. Some oid = vo_option_id vo') second = Some vo"
proof -
  have "vo \<in> set second" using vo eq by simp
  then obtain e where e: "find (\<lambda>vo'. Some oid = vo_option_id vo') second = Some e"
    using k by (cases "find (\<lambda>vo'. Some oid = vo_option_id vo') second")
      (auto simp: find_None_iff)
  then have "e \<in> set second" "vo_option_id e = Some oid"
    by (auto simp: find_Some_iff)
  then have "e \<in> set first" "vo_option_id e = vo_option_id vo"
    using eq k by auto
  then have "e = vo"
    using one vo by (auto simp: distinct_map inj_on_def)
  with e show ?thesis by simp
qed

text \<open>After a create by rental id, a second create by rental id reads the rental with
  the new variant, which holds the supplied values and no other.\<close>

lemma second_create_duplicate:
  assumes ok: "RentalVariantService_create s (RentalId rentalId) first = Inr (created, s1)"
    and fresh: "generateEntityId ''variant'' (id_counter s)
                \<notin> ov_variant_id ` set (option_value_table s)"
    and one: "distinct (map vo_option_id (cv_options first))"
    and eq: "set (cv_options second) = set (cv_options first)"
    and len2: "length (cv_options second) = length (cv_options first)"
  shows "RentalVariantService_create s1 (RentalId rentalId) second = Inl DUPLICATE_ERROR"
proof -
  let ?rels = "[''variants'', ''variants.options'', ''options'']"
  from create_success [OF ok] obtain rental where
    res: "resolve_rental s (RentalId rentalId) = Inr rental"
    and len: "length (r_options rental) = length (cv_options first)"
    and cover: "\<forall>option \<in> set (r_options rental).
                  Some (opt_id option) \<in> vo_option_id ` set (cv_options first)"
    and rt: "rental_table s1 = rental_table s" and ot: "option_table s1 = option_table s"
    and vt: "variant_table s1 = variant_table s @ [v_row created]"
    and ovt: "option_value_table s1 = option_value_table s @ v_options created"
    and vid: "var_id (v_row created) = generateEntityId ''variant'' (id_counter s)"
    and rid: "var_rental_id (v_row created) = r_id rental" and live: "\<not> var_deleted (v_row created)"
    and m: "map (\<lambda>ov. (Some (ov_option_id ov), ov_value ov, ov_variant_id ov, ov_deleted ov))
              (v_options created)
            = map (\<lambda>vo. (vo_option_id vo, vo_value vo, v_id created, False)) (cv_options first)"
    by blast
  from res obtain row where
    row: "find (\<lambda>r. rn_id r = rentalId \<and> \<not> rn_deleted r) (rental_table s) = Some row"
    and rental: "rental = load_rental s ?rels row"
    by (auto simp: findOne_rental_def split: option.splits)
  from row have rowid: "rn_id row = rentalId" by (auto simp: find_Some_iff)
  define rental1 where "rental1 = load_rental s1 ?rels row"
  have res1: "resolve_rental s1 (RentalId rentalId) = Inr rental1"
    using row rt by (simp add: findOne_rental_def rental1_def)
  have opts1: "r_options rental1 = r_options rental"
    by (simp add: rental1_def rental load_rental_def rental_options_def ot)
  have rid': "var_rental_id (v_row created) = rentalId"
    using rid rental rowid by (simp add: load_rental_def)
  have ex1: "load_variant s1 ?rels (v_row created) \<in> set (r_variants rental1)"
    using rid' live rowid
    by (simp add: rental1_def load_rental_def rental_variant_rows_def vt toplevel_def)
  have props: "\<forall>ov \<in> set (v_options created). ov_variant_id ov = v_id created \<and> \<not> ov_deleted ov
                 \<and> (\<exists>vo \<in> set (cv_options first). vo_option_id vo = Some (ov_option_id ov)
                                                   \<and> vo_value vo = ov_value ov)"
  proof
    fix ov assume "ov \<in> set (v_options created)"
    then have "(Some (ov_option_id ov), ov_value ov, ov_variant_id ov, ov_deleted ov)
               \<in> set (map (\<lambda>vo. (vo_option_id vo, vo_value vo, v_id created, False))
                        (cv_options first))"
      using m by (metis (mono_tags, lifting) image_eqI set_map)
    then show "ov_variant_id ov = v_id created \<and> \<not> ov_deleted ov
                 \<and> (\<exists>vo \<in> set (cv_options first). vo_option_id vo = Some (ov_option_id ov)
                                                   \<and> vo_value vo = ov_value ov)"
      by auto
  qed
  have old: "filter (\<lambda>ov. ov_variant_id ov = v_id created \<and> \<not> ov_deleted ov)
               (option_value_table s) = []"
    using fresh vid by (force simp: filter_empty_conv)
  have new: "filter (\<lambda>ov. ov_variant_id ov = v_id created \<and> \<not> ov_deleted ov)
               (v_options created) = v_options created"
    using props by (auto simp: filter_id_conv)
  have vopts: "v_options (load_variant s1 ?rels (v_row created)) = v_options created"
    by (simp add: load_variant_def variant_options_def ovt old new)
  have same1: "same_option_values (cv_options second) (load_variant s1 ?rels (v_row created))"
    unfolding same_option_values_iff vopts
  proof
    fix ov assume "ov \<in> set (v_options created)"
    with props obtain vo where vo: "vo \<in> set (cv_options first)"
      "vo_option_id vo = Some (ov_option_id ov)" "vo_value vo = ov_value ov"
      by blast
    from first_supplied_unique [OF one vo(1) eq vo(2)] vo(3)
    show "\<exists>vo. find (\<lambda>vo. Some (ov_option_id ov) = vo_option_id vo) (cv_options second) = Some vo
               \<and> vo_value vo = ov_value ov"
      by simp
  qed
  have len1: "length (cv_options second) = length (r_options rental1)"
    using len len2 opts1 by simp
  have cover1: "\<forall>option \<in> set (r_options rental1).
                  Some (opt_id option) \<in> vo_option_id ` set (cv_options second)"
    using cover opts1 eq by simp
  from create_duplicate_iff [OF res1 len1 cover1] ex1 same1 show ?thesis by blast
qed

text \<open>
  Claim C5 says that a variant whose option values are those of an existing variant for
  all options of the rental is rejected with DuplicateError, and that the second of two
  creates with the same combination always fails. Neither holds. The tent has the one
  option Size and the variant Small of size S. When Small has been given a value for
  the fuel of the stove, an option of another rental, by \<open>addOptionValue\<close>, a new variant
  of size S is created: the test asks every value of the existing variant to be
  supplied, and no fuel is. When the tent is handed to \<open>create\<close> as the object that
  was read before, twice with the same variant Medium, both calls create a variant: the
  object has no trace of the first. And the route that creates a rental starts the
  creates of its variants together: for a request with two variants of size S both are
  created, each call having read the rental without variants.
\<close>

theorem create_duplicate_counterexample:
  "resolve_rental (snd (addOptionValue camping_store ''variant_small'' ''opt_fuel'' ''Gas''))
       (RentalId ''rental_tent'')
     = Inr \<lparr>r_row = tent, r_options = [tent_size],
            r_variants = [\<lparr>v_row = small,
                           v_options = [small_size,
                                        \<lparr>ov_id = ''optval_'', ov_value = ''Gas'',
                                         ov_option_id = ''opt_fuel'',
                                         ov_variant_id = ''variant_small'',
                                         ov_deleted = False\<rparr>]\<rparr>]\<rparr>
   \<and> ov_option_id small_size = opt_id tent_size \<and> ov_value small_size = ''S''
   \<and> cv_options small_again = [\<lparr>vo_option_id = Some (opt_id tent_size), vo_value = ''S''\<rparr>]
   \<and> map var_title
        (variant_table
           (snd (projr (RentalVariantService_create
                          (snd (addOptionValue camping_store ''variant_small'' ''opt_fuel'' ''Gas''))
                          (RentalId ''rental_tent'') small_again))))
     = [''Small'', ''Small again'']
   \<and> RentalVariantService_create tent_store (RentalObject tent_loaded) medium_input
     = Inr (medium_created, medium_store)
   \<and> map var_title
        (variant_table
           (snd (projr (RentalVariantService_create medium_store (RentalObject tent_loaded)
                          medium_input))))
     = [''Small'', ''Medium'', ''Medium'']
   \<and> map var_title (variant_table (snd (AdminPostRentals profiles twin_request empty_store)))
     = [''Small'', ''Small twin'']
   \<and> map ov_value (option_value_table (snd (AdminPostRentals profiles twin_request empty_store)))
     = [''S'', ''S'']"
  by code_simp

text \<open>
  Claim C5, amended. For the rental that \<open>create\<close> works on (read at the call when an
  id is given, the object as it is handed over otherwise) and supplied values that pass
  the two tests of C4, \<open>create\<close> fails with DuplicateError exactly when the rental has a
  variant each of whose own option values is equal to the first value supplied for the
  same option. So a variant whose values are those of an existing variant for all
  options of the rental is rejected with DuplicateError when the existing variant holds
  one value for each option of the rental and no other. And once a variant was created
  from a rental id with one value for each option, under an id that no stored option
  value refers to, a second create from the rental id with the same combination of
  option ids and values fails with DuplicateError.
\<close>

theorem create_duplicate_exactly_when_matched:
  "(resolve_rental s rentalOrRentalId = Inr rental
      \<and> length (cv_options variant) = length (r_options rental)
      \<and> (\<forall>option \<in> set (r_options rental).
            Some (opt_id option) \<in> vo_option_id ` set (cv_options variant))
    \<longrightarrow> (RentalVariantService_create s rentalOrRentalId variant = Inl DUPLICATE_ERROR)
         = (\<exists>existing \<in> set (r_variants rental).
              \<forall>ov \<in> set (v_options existing).
                \<exists>vo. find (\<lambda>vo. Some (ov_option_id ov) = vo_option_id vo) (cv_options variant)
                        = Some vo
                     \<and> vo_value vo = ov_value ov))
   \<and> (resolve_rental s rentalOrRentalId = Inr rental
      \<and> length (cv_options variant) = length (r_options rental)
      \<and> existing \<in> set (r_variants rental)
      \<and> distinct (map ov_option_id (v_options existing))
      \<and> ov_option_id ` set (v_options existing) \<subseteq> opt_id ` set (r_options rental)
      \<and> (\<forall>option \<in> set (r_options rental).
            \<exists>ov vo. find (\<lambda>ov. ov_option_id ov = opt_id option) (v_options existing) = Some ov
                  \<and> find (\<lambda>vo. Some (opt_id option) = vo_option_id vo) (cv_options variant)
                      = Some vo
                  \<and> vo_value vo = ov_value ov)
    \<longrightarrow> RentalVariantService_create s rentalOrRentalId variant = Inl DUPLICATE_ERROR)
   \<and> (RentalVariantService_create s0 (RentalId rentalId) first = Inr (created, s1)
      \<and> generateEntityId ''variant'' (id_counter s0) \<notin> ov_variant_id ` set (option_value_table s0)
      \<and> distinct (map vo_option_id (cv_options first))
      \<and> set (cv_options second) = set (cv_options first)
      \<and> length (cv_options second) = length (cv_options first)
    \<longrightarrow> RentalVariantService_create s1 (RentalId rentalId) second = Inl DUPLICATE_ERROR)"
proof (intro conjI impI)
  assume a: "resolve_rental s rentalOrRentalId = Inr rental
      \<and> length (cv_options variant) = length (r_options rental)
      \<and> (\<forall>option \<in> set (r_options rental).
            Some (opt_id option) \<in> vo_option_id ` set (cv_options variant))"
  from create_duplicate_iff [of s rentalOrRentalId rental variant] a
  show "(RentalVariantService_create s rentalOrRentalId variant = Inl DUPLICATE_ERROR)
         = (\<exists>existing \<in> set (r_variants rental).
              \<forall>ov \<in> set (v_options existing).
                \<exists>vo. find (\<lambda>vo. Some (ov_option_id ov) = vo_option_id vo) (cv_options variant)
                        = Some vo
                     \<and> vo_value vo = ov_value ov)"
    by (simp add: same_option_values_iff)
next
  assume b: "resolve_rental s rentalOrRentalId = Inr rental
      \<and> length (cv_options variant) = length (r_options rental)
      \<and> existing \<in> set (r_variants rental)
      \<and> distinct (map ov_option_id (v_options existing))
      \<and> ov_option_id ` set (v_options existing) \<subseteq> opt_id ` set (r_options rental)
      \<and> (\<forall>option \<in> set (r_options rental).
            \<exists>ov vo. find (\<lambda>ov. ov_option_id ov = opt_id option) (v_options existing) = Some ov
                  \<and> find (\<lambda>vo. Some (opt_id option) = vo_option_id vo) (cv_options variant)
                      = Some vo
                  \<and> vo_value vo = ov_value ov)"
  then have cover: "\<forall>option \<in> set (r_options rental).
                       Some (opt_id option) \<in> vo_option_id ` set (cv_options variant)"
  proof (intro ballI)
    fix option assume "option \<in> set (r_options rental)"
    with b obtain vo where
      "find (\<lambda>vo. Some (opt_id option) = vo_option_id vo) (cv_options variant) = Some vo"
      by blast
    then have "vo \<in> set (cv_options variant)" "Some (opt_id option) = vo_option_id vo"
      by (auto simp: find_Some_iff)
    then show "Some (opt_id option) \<in> vo_option_id ` set (cv_options variant)"
      by (simp add: image_iff) blast
  qed
  from b have res: "resolve_rental s rentalOrRentalId = Inr rental"
    and len: "length (cv_options variant) = length (r_options rental)"
    and ex: "existing \<in> set (r_variants rental)"
    by simp_all
  from b have "same_option_values (cv_options variant) existing"
    using identical_assignment_matches [of existing rental variant] by blast
  with create_duplicate_iff [OF res len cover] ex
  show "RentalVariantService_create s rentalOrRentalId variant = Inl DUPLICATE_ERROR"
    by blast
next
  assume "RentalVariantService_create s0 (RentalId rentalId) first = Inr (created, s1)
      \<and> generateEntityId ''variant'' (id_counter s0) \<notin> ov_variant_id ` set (option_value_table s0)
      \<and> distinct (map vo_option_id (cv_options first))
      \<and> set (cv_options second) = set (cv_options first)
      \<and> length (cv_options second) = length (cv_options first)"
  then show "RentalVariantService_create s1 (RentalId rentalId) second = Inl DUPLICATE_ERROR"
    using second_create_duplicate [of s0 rentalId first created s1 second] by blast
qed

lemma create_medium:
  "RentalVariantService_create tent_store (RentalId ''rental_tent'') medium_input
   = Inr (medium_created, medium_store)"
  by code_simp

lemma resolve_tent_with_fuel:
  "resolve_rental (snd (addOptionValue camping_store ''variant_small'' ''opt_fuel'' ''Gas''))
     (RentalId ''rental_tent'')
   = Inr \<lparr>r_row = tent, r_options = [tent_size],
          r_variants = [\<lparr>v_row = small,
                         v_options = [small_size,
                                      \<lparr>ov_id = ''optval_'', ov_value = ''Gas'',
                                       ov_option_id = ''opt_fuel'',
                                       ov_variant_id = ''variant_small'',
                                       ov_deleted = False\<rparr>]\<rparr>]\<rparr>"
  by code_simp

theorem create_duplicate_exactly_when_matched_witness:
  "resolve_rental tent_store (RentalId ''rental_tent'') = Inr tent_loaded
   \<and> RentalVariantService_create tent_store (RentalId ''rental_tent'') small_again
     = Inl DUPLICATE_ERROR
   \<and> RentalVariantService_create tent_store (RentalId ''rental_tent'') medium_input
     = Inr (medium_created, medium_store)
   \<and> RentalVariantService_create medium_store (RentalId ''rental_tent'') medium_input
     = Inl DUPLICATE_ERROR
   \<and> RentalVariantService_create
        (snd (addOptionValue camping_store ''variant_small'' ''opt_fuel'' ''Gas''))
        (RentalId ''rental_tent'') small_again
     \<noteq> Inl DUPLICATE_ERROR"
proof -
  let ?fuel = "\<lparr>ov_id = ''optval_'', ov_value = ''Gas'', ov_option_id = ''opt_fuel'',
               ov_variant_id = ''variant_small'', ov_deleted = False\<rparr>"
  let ?tent = "\<lparr>r_row = tent, r_options = [tent_size],
               r_variants = [\<lparr>v_row = small, v_options = [small_size, ?fuel]\<rparr>]\<rparr>"
  have g1: "length (cv_options small_again) = length (r_options ?tent)"
    "\<forall>option \<in> set (r_options ?tent).
       Some (opt_id option) \<in> vo_option_id ` set (cv_options small_again)"
    by (simp_all add: small_again_def tent_size_def)
  have g2: "\<not> (\<exists>existing \<in> set (r_variants ?tent).
                \<forall>ov \<in> set (v_options existing).
                  \<exists>vo. find (\<lambda>vo. Some (ov_option_id ov) = vo_option_id vo)
                         (cv_options small_again) = Some vo
                       \<and> vo_value vo = ov_value ov)"
    by (simp add: small_again_def small_size_def)
  from create_duplicate_exactly_when_matched
    [of "snd (addOptionValue camping_store ''variant_small'' ''opt_fuel'' ''Gas'')"
      "RentalId ''rental_tent''" ?tent small_again]
    resolve_tent_with_fuel g1 g2
  have stray: "RentalVariantService_create
                 (snd (addOptionValue camping_store ''variant_small'' ''opt_fuel'' ''Gas''))
                 (RentalId ''rental_tent'') small_again
               \<noteq> Inl DUPLICATE_ERROR"
    by blast
  let ?small = "\<lparr>v_row = small, v_options = [small_size]\<rparr>"
  have h1: "length (cv_options small_again) = length (r_options tent_loaded)"
    "?small \<in> set (r_variants tent_loaded)"
    "distinct (map ov_option_id (v_options ?small))"
    "ov_option_id ` set (v_options ?small) \<subseteq> opt_id ` set (r_options tent_loaded)"
    by (simp_all add: small_again_def tent_loaded_def small_size_def tent_size_def)
  have h2: "\<forall>option \<in> set (r_options tent_loaded).
              \<exists>ov vo. find (\<lambda>ov. ov_option_id ov = opt_id option) (v_options ?small) = Some ov
                    \<and> find (\<lambda>vo. Some (opt_id option) = vo_option_id vo) (cv_options small_again)
                        = Some vo
                    \<and> vo_value vo = ov_value ov"
    by (simp add: tent_loaded_def small_again_def small_size_def tent_size_def)
  have h3: "generateEntityId ''variant'' (id_counter tent_store)
              \<notin> ov_variant_id ` set (option_value_table tent_store)"
    "distinct (map vo_option_id (cv_options medium_input))"
    by (simp_all add: tent_store_def empty_store_def generateEntityId_def small_size_def
        medium_input_def)
  from create_duplicate_exactly_when_matched
    [of tent_store "RentalId ''rental_tent''" tent_loaded small_again ?small
      tent_store "''rental_tent''" medium_input medium_created medium_store medium_input]
    resolve_tent create_medium h1 h2 h3
  have "RentalVariantService_create tent_store (RentalId ''rental_tent'') small_again
          = Inl DUPLICATE_ERROR
        \<and> RentalVariantService_create medium_store (RentalId ''rental_tent'') medium_input
          = Inl DUPLICATE_ERROR"
    by blast
  with resolve_tent create_medium stray show ?thesis by blast
qed

subsection \<open>Adding an option\<close>

lemma backfill_tables:
  "\<exists>new. option_value_table
            (fold (\<lambda>variant st. snd (addOptionValue st (v_id variant) optionId val)) vs st0)
          = option_value_table st0 @ new
        \<and> map (\<lambda>ov. (ov_variant_id ov, ov_option_id ov, ov_value ov, ov_deleted ov)) new
          = map (\<lambda>variant. (v_id variant, optionId, val, False)) vs"
proof (induction vs arbitrary: st0)
  case Nil
  then show ?case by simp
next
  case (Cons v vs)
  let ?st1 = "snd (addOptionValue st0 (v_id v) optionId val)"
  from Cons.IH [of ?st1] obtain new where
    new: "option_value_table
            (fold (\<lambda>variant st. snd (addOptionValue st (v_id variant) optionId val)) vs ?st1)
          = option_value_table ?st1 @ new"
      "map (\<lambda>ov. (ov_variant_id ov, ov_option_id ov, ov_value ov, ov_deleted ov)) new
          = map (\<lambda>variant. (v_id variant, optionId, val, False)) vs"
    by blast
  obtain ov where ov: "option_value_table ?st1 = option_value_table st0 @ [ov]"
    "ov_variant_id ov = v_id v" "ov_option_id ov = optionId" "ov_value ov = val"
    "\<not> ov_deleted ov"
    by (simp add: addOptionValue_def Let_def)
  show ?case
    by (rule exI [of _ "ov # new"]) (simp add: new ov)
qed

lemma backfill_frame:
  "rental_table (fold (\<lambda>variant st. snd (addOptionValue st (v_id variant) optionId val)) vs st0)
     = rental_table st0
   \<and> option_table (fold (\<lambda>variant st. snd (addOptionValue st (v_id variant) optionId val)) vs st0)
     = option_table st0"
  by (induction vs arbitrary: st0) (simp_all add: addOptionValue_def Let_def)

text \<open>
  Claim C7. For a rental, \<open>addOption\<close> fails with DuplicateError when an option of the
  rental has exactly the given title. Otherwise it succeeds, the option table gains the
  option with that title for the rental, and the option-value table gains, for every
  variant the rental had, one value of the new option that is "Default Value".
\<close>

theorem addOption_duplicate_or_backfill:
  assumes r: "retrieve s rentalId [''options'', ''variants''] = Inr rental"
  shows "if optionTitle \<in> opt_title ` set (r_options rental)
         then addOption s rentalId optionTitle = Inl DUPLICATE_ERROR
         else (\<exists>result s' new.
                 addOption s rentalId optionTitle = Inr (result, s')
               \<and> option_table s'
                 = option_table s @ [\<lparr>opt_id = generateEntityId ''opt'' (id_counter s),
                                       opt_title = optionTitle, opt_rental_id = rentalId,
                                       opt_deleted = False\<rparr>]
               \<and> option_value_table s' = option_value_table s @ new
               \<and> map (\<lambda>ov. (ov_variant_id ov, ov_option_id ov, ov_value ov, ov_deleted ov)) new
                 = map (\<lambda>variant. (v_id variant, generateEntityId ''opt'' (id_counter s),
                                    ''Default Value'', False))
                     (r_variants rental))"
proof (cases "optionTitle \<in> opt_title ` set (r_options rental)")
  case True
  then have "find (\<lambda>opt. opt_title opt = optionTitle) (r_options rental) \<noteq> None"
    by (auto simp: find_None_iff)
  with r True show ?thesis by (simp add: addOption_def)
next
  case False
  then have none: "find (\<lambda>opt. opt_title opt = optionTitle) (r_options rental) = None"
    by (auto simp: find_None_iff)
  let ?oid = "generateEntityId ''opt'' (id_counter s)"
  let ?option = "\<lparr>opt_id = ?oid, opt_title = optionTitle, opt_rental_id = rentalId,
                  opt_deleted = False\<rparr>"
  let ?s1 = "s\<lparr>option_table := option_table s @ [?option], id_counter := Suc (id_counter s)\<rparr>"
  let ?s2 = "fold (\<lambda>variant st. snd (addOptionValue st (v_id variant) ?oid ''Default Value''))
               (r_variants rental) ?s1"
  from r obtain row where
    row: "find (\<lambda>r. rn_id r = rentalId \<and> \<not> rn_deleted r) (rental_table s) = Some row"
    by (auto simp: retrieve_def findOne_rental_def split: option.splits)
  have fr: "rental_table ?s2 = rental_table s" "option_table ?s2 = option_table s @ [?option]"
    using backfill_frame [of ?oid "''Default Value''" "r_variants rental" ?s1] by simp_all
  have ret: "retrieve ?s2 rentalId [] = Inr (load_rental ?s2 [] row)"
    using row fr(1) by (simp add: retrieve_def findOne_rental_def)
  from backfill_tables [of ?oid "''Default Value''" "r_variants rental" ?s1]
  obtain new where new: "option_value_table ?s2 = option_value_table s @ new"
    "map (\<lambda>ov. (ov_variant_id ov, ov_option_id ov, ov_value ov, ov_deleted ov)) new
       = map (\<lambda>variant. (v_id variant, ?oid, ''Default Value'', False)) (r_variants rental)"
    by auto
  have run: "addOption s rentalId optionTitle
             = Inr (load_rental ?s2 [] row,
                    emit ''rental.updated'' (r_id (load_rental ?s2 [] row)) ?s2)"
    using r none ret by (simp add: addOption_def Let_def)
  show ?thesis
    using False run fr new by (simp add: emit_def)
qed

lemma retrieve_tent_options_variants:
  "retrieve tent_store ''rental_tent'' [''options'', ''variants'']
   = Inr \<lparr>r_row = tent, r_options = [tent_size],
          r_variants = [\<lparr>v_row = small, v_options = []\<rparr>]\<rparr>"
  by (simp add: retrieve_def findOne_rental_def load_rental_def load_variant_def
      rental_variant_rows_def rental_options_def toplevel_def tent_store_def empty_store_def
      tent_def small_def tent_size_def)

theorem addOption_duplicate_or_backfill_witness:
  "retrieve tent_store ''rental_tent'' [''options'', ''variants'']
     = Inr \<lparr>r_row = tent, r_options = [tent_size],
            r_variants = [\<lparr>v_row = small, v_options = []\<rparr>]\<rparr>
   \<and> addOption tent_store ''rental_tent'' ''Size'' = Inl DUPLICATE_ERROR
   \<and> (\<exists>result s'. addOption tent_store ''rental_tent'' ''Color'' = Inr (result, s')
        \<and> map (\<lambda>ov. (ov_variant_id ov, ov_option_id ov, ov_value ov, ov_deleted ov))
            (option_value_table s')
          = [(''variant_small'', ''opt_size'', ''S'', False),
             (''variant_small'', ''opt_'', ''Default Value'', False)])"
proof -
  let ?r = "\<lparr>r_row = tent, r_options = [tent_size],
            r_variants = [\<lparr>v_row = small, v_options = []\<rparr>]\<rparr>"
  have size: "''Size'' \<in> opt_title ` set (r_options ?r)"
    and color: "''Color'' \<notin> opt_title ` set (r_options ?r)"
    by (simp_all add: tent_size_def)
  have dup: "addOption tent_store ''rental_tent'' ''Size'' = Inl DUPLICATE_ERROR"
    using addOption_duplicate_or_backfill [OF retrieve_tent_options_variants, of "''Size''"] size
    by (simp only: if_True)
  from addOption_duplicate_or_backfill [OF retrieve_tent_options_variants, of "''Color''"] color
  have "\<exists>result s' new. addOption tent_store ''rental_tent'' ''Color'' = Inr (result, s')
        \<and> option_table s'
          = option_table tent_store
            @ [\<lparr>opt_id = generateEntityId ''opt'' (id_counter tent_store), opt_title = ''Color'',
                opt_rental_id = ''rental_tent'', opt_deleted = False\<rparr>]
        \<and> option_value_table s' = option_value_table tent_store @ new
        \<and> map (\<lambda>ov. (ov_variant_id ov, ov_option_id ov, ov_value ov, ov_deleted ov)) new
          = map (\<lambda>variant. (v_id variant, generateEntityId ''opt'' (id_counter tent_store),
                             ''Default Value'', False)) (r_variants ?r)"
    by (simp only: if_False)
  then obtain result s' new where c: "addOption tent_store ''rental_tent'' ''Color'' = Inr (result, s')"
    "option_value_table s' = option_value_table tent_store @ new"
    "map (\<lambda>ov. (ov_variant_id ov, ov_option_id ov, ov_value ov, ov_deleted ov)) new
          = map (\<lambda>variant. (v_id variant, generateEntityId ''opt'' (id_counter tent_store),
                             ''Default Value'', False)) (r_variants ?r)"
    by blast
  have "map (\<lambda>ov. (ov_variant_id ov, ov_option_id ov, ov_value ov, ov_deleted ov))
            (option_value_table s')
          = [(''variant_small'', ''opt_size'', ''S'', False),
             (''variant_small'', ''opt_'', ''Default Value'', False)]"
    by (simp add: c(2,3) tent_store_def empty_store_def small_size_def small_def
        generateEntityId_def)
  with c(1) dup retrieve_tent_options_variants show ?thesis by auto
qed

subsection \<open>Deleting an option\<close>

lemma find_SomeD: "find P xs = Some x \<Longrightarrow> P x \<and> x \<in> set xs"
  by (induction xs) (auto split: if_splits)

lemma retrieve_id: "retrieve s rentalId rels = Inr rental \<Longrightarrow> r_id rental = rentalId"
proof -
  assume "retrieve s rentalId rels = Inr rental"
  then obtain row where f: "find (\<lambda>r. rn_id r = rentalId \<and> \<not> rn_deleted r) (rental_table s) = Some row"
    and l: "rental = load_rental s rels row"
    by (auto simp: retrieve_def findOne_rental_def split: option.splits)
  from find_SomeD [OF f] l show ?thesis
    by (simp add: load_rental_def)
qed

lemma deleteOption_missing:
  assumes r: "retrieve s rentalId [''variants'', ''variants.options''] = Inr rental"
    and no: "findOne_option s rentalId optionId = None"
  shows "deleteOption s rentalId optionId = Inr (None, s)"
  unfolding deleteOption_def by (simp add: r no)

lemma deleteOption_differing:
  assumes r: "retrieve s rentalId [''variants'', ''variants.options''] = Inr rental"
    and opt: "findOne_option s rentalId optionId = Some rentalOption"
    and v1: "v1 \<in> set (r_variants rental)" and v2: "v2 \<in> set (r_variants rental)"
    and ne: "value_for optionId v1 \<noteq> value_for optionId v2"
  shows "deleteOption s rentalId optionId = Inl INVALID_DATA"
proof -
  from v1 obtain firstVariant rest where vs: "r_variants rental = firstVariant # rest"
    by (cases "r_variants rental") auto
  have "\<exists>v \<in> set (r_variants rental). value_for optionId v \<noteq> value_for optionId firstVariant"
  proof (cases "value_for optionId v1 = value_for optionId firstVariant")
    case True
    with ne have "value_for optionId v2 \<noteq> value_for optionId firstVariant" by simp
    with v2 show ?thesis by blast
  next
    case False
    with v1 show ?thesis by blast
  qed
  then have bad: "\<not> list_all (\<lambda>b. b)
                    (map (\<lambda>v. value_for optionId v = value_for optionId firstVariant)
                       (r_variants rental))"
    by (simp add: list_all_iff)
  show ?thesis
    unfolding deleteOption_def Let_def
    using bad by (simp add: r opt vs)
qed

text \<open>What the soft removal of an option and the event leave: the rows of the option's
  id are marked, as are the value rows with the id of a live value of the option; every
  other row and table is as before.\<close>

lemma softRemove_option_store:
  "emit name i (softRemove_option optionId s)
   = s\<lparr>option_table :=
          map (\<lambda>opt. if opt_id opt = optionId then opt\<lparr>opt_deleted := True\<rparr> else opt)
            (option_table s),
        option_value_table :=
          map (\<lambda>ov. if ov_id ov
                          \<in> set (map ov_id
                                  (filter (\<lambda>v. ov_option_id v = optionId \<and> \<not> ov_deleted v)
                                     (option_value_table s)))
                     then ov\<lparr>ov_deleted := True\<rparr> else ov)
            (option_value_table s),
        events := events s @ [Event name i]\<rparr>"
  by (simp add: softRemove_option_def softRemove_option_values_def emit_def Let_def)

lemma deleteOption_same:
  assumes r: "retrieve s rentalId [''variants'', ''variants.options''] = Inr rental"
    and opt: "findOne_option s rentalId optionId = Some rentalOption"
    and same: "\<forall>v1 \<in> set (r_variants rental). \<forall>v2 \<in> set (r_variants rental).
                 value_for optionId v1 = value_for optionId v2"
  shows "deleteOption s rentalId optionId
         = Inr (Some rental, emit ''rental.updated'' rentalId (softRemove_option optionId s))"
proof -
  from opt have "find (\<lambda>opt. opt_id opt = optionId \<and> opt_rental_id opt = rentalId \<and> \<not> opt_deleted opt)
       (option_table s) = Some rentalOption"
    by (simp add: findOne_option_def)
  from find_SomeD [OF this] have oid: "opt_id rentalOption = optionId"
    by simp
  from r have rid: "r_id rental = rentalId"
    by (rule retrieve_id)
  show ?thesis
  proof (cases "r_variants rental")
    case Nil
    then show ?thesis
      unfolding deleteOption_def by (simp add: r opt oid rid)
  next
    case (Cons firstVariant rest)
    then have "firstVariant \<in> set (r_variants rental)"
      by simp
    with same have "\<forall>v \<in> set (r_variants rental).
                 value_for optionId v = value_for optionId firstVariant"
      by blast
    then have good: "list_all (\<lambda>b. b)
                    (map (\<lambda>v. value_for optionId v = value_for optionId firstVariant)
                       (r_variants rental))"
      by (simp add: list_all_iff)
    show ?thesis
      unfolding deleteOption_def Let_def
      using good by (simp add: r opt Cons oid rid)
  qed
qed

text \<open>
  Claim C8. For a rental, \<open>deleteOption\<close> is a no-op when the rental has no such
  option (no live option row with the id and the rental); it fails with InvalidData when
  two variants of the rental hold differing values for the option, the value of a variant
  being that of its first option value for the option, or none; and when all variants
  hold the same value, or the rental has no variant, it soft-removes the option: it
  returns the rental as it was read, and in the store the rows of the option are marked
  deleted, as are the live values of the option, the event is added, and every other row
  and table is unchanged.
\<close>

theorem deleteOption_cases:
  assumes r: "retrieve s rentalId [''variants'', ''variants.options''] = Inr rental"
  shows "(find (\<lambda>opt. opt_id opt = optionId \<and> opt_rental_id opt = rentalId \<and> \<not> opt_deleted opt)
            (option_table s) = None
            \<longrightarrow> deleteOption s rentalId optionId = Inr (None, s))
       \<and> (find (\<lambda>opt. opt_id opt = optionId \<and> opt_rental_id opt = rentalId \<and> \<not> opt_deleted opt)
            (option_table s) \<noteq> None
            \<and> (\<exists>v1 \<in> set (r_variants rental). \<exists>v2 \<in> set (r_variants rental).
                  map_option ov_value (find (\<lambda>ov. ov_option_id ov = optionId) (v_options v1))
                  \<noteq> map_option ov_value (find (\<lambda>ov. ov_option_id ov = optionId) (v_options v2)))
            \<longrightarrow> deleteOption s rentalId optionId = Inl INVALID_DATA)
       \<and> (find (\<lambda>opt. opt_id opt = optionId \<and> opt_rental_id opt = rentalId \<and> \<not> opt_deleted opt)
            (option_table s) \<noteq> None
            \<and> (\<forall>v1 \<in> set (r_variants rental). \<forall>v2 \<in> set (r_variants rental).
                  map_option ov_value (find (\<lambda>ov. ov_option_id ov = optionId) (v_options v1))
                  = map_option ov_value (find (\<lambda>ov. ov_option_id ov = optionId) (v_options v2)))
            \<longrightarrow> deleteOption s rentalId optionId
                  = Inr (Some rental,
                         s\<lparr>option_table :=
                              map (\<lambda>opt. if opt_id opt = optionId then opt\<lparr>opt_deleted := True\<rparr>
                                         else opt)
                                (option_table s),
                            option_value_table :=
                              map (\<lambda>ov. if ov_id ov
                                              \<in> set (map ov_id
                                                      (filter (\<lambda>v. ov_option_id v = optionId
                                                                   \<and> \<not> ov_deleted v)
                                                         (option_value_table s)))
                                         then ov\<lparr>ov_deleted := True\<rparr> else ov)
                                (option_value_table s),
                            events := events s @ [Event ''rental.updated'' rentalId]\<rparr>))"
  unfolding findOne_option_def [symmetric] value_for_def [symmetric]
proof (intro conjI impI)
  assume "findOne_option s rentalId optionId = None"
  then show "deleteOption s rentalId optionId = Inr (None, s)"
    by (rule deleteOption_missing [OF r])
next
  assume a: "findOne_option s rentalId optionId \<noteq> None
             \<and> (\<exists>v1 \<in> set (r_variants rental). \<exists>v2 \<in> set (r_variants rental).
                   value_for optionId v1 \<noteq> value_for optionId v2)"
  then obtain rentalOption v1 v2 where "findOne_option s rentalId optionId = Some rentalOption"
    "v1 \<in> set (r_variants rental)" "v2 \<in> set (r_variants rental)"
    "value_for optionId v1 \<noteq> value_for optionId v2"
    by blast
  then show "deleteOption s rentalId optionId = Inl INVALID_DATA"
    by (rule deleteOption_differing [OF r])
next
  assume a: "findOne_option s rentalId optionId \<noteq> None
             \<and> (\<forall>v1 \<in> set (r_variants rental). \<forall>v2 \<in> set (r_variants rental).
                   value_for optionId v1 = value_for optionId v2)"
  then obtain rentalOption where "findOne_option s rentalId optionId = Some rentalOption"
    by blast
  moreover from a have "\<forall>v1 \<in> set (r_variants rental). \<forall>v2 \<in> set (r_variants rental).
                   value_for optionId v1 = value_for optionId v2"
    by (rule conjunct2)
  ultimately have "deleteOption s rentalId optionId
                  = Inr (Some rental,
                         emit ''rental.updated'' rentalId (softRemove_option optionId s))"
    by (rule deleteOption_same [OF r])
  then show "deleteOption s rentalId optionId
                  = Inr (Some rental,
                         s\<lparr>option_table :=
                              map (\<lambda>opt. if opt_id opt = optionId then opt\<lparr>opt_deleted := True\<rparr>
                                         else opt)
                                (option_table s),
                            option_value_table :=
                              map (\<lambda>ov. if ov_id ov
                                              \<in> set (map ov_id
                                                      (filter (\<lambda>v. ov_option_id v = optionId
                                                                   \<and> \<not> ov_deleted v)
                                                         (option_value_table s)))
                                         then ov\<lparr>ov_deleted := True\<rparr> else ov)
                                (option_value_table s),
                            events := events s @ [Event ''rental.updated'' rentalId]\<rparr>)"
    by (simp only: softRemove_option_store)
qed

lemma retrieve_tent_variant_options:
  "retrieve tent_store ''rental_tent'' [''variants'', ''variants.options'']
   = Inr \<lparr>r_row = tent, r_options = [],
          r_variants = [\<lparr>v_row = small, v_options = [small_size]\<rparr>]\<rparr>"
  by (simp add: retrieve_def findOne_rental_def load_rental_def load_variant_def
      rental_variant_rows_def variant_options_def toplevel_def tent_store_def empty_store_def
      tent_def small_def small_size_def)

lemma retrieve_medium_variant_options:
  "retrieve medium_store ''rental_tent'' [''variants'', ''variants.options'']
   = Inr \<lparr>r_row = tent, r_options = [],
          r_variants = [\<lparr>v_row = small, v_options = [small_size]\<rparr>, medium_created]\<rparr>"
  by (simp add: retrieve_def findOne_rental_def load_rental_def load_variant_def
      rental_variant_rows_def variant_options_def toplevel_def medium_store_def tent_store_def
      empty_store_def tent_def small_def small_size_def medium_created_def)

theorem deleteOption_cases_witness:
  "retrieve medium_store ''rental_tent'' [''variants'', ''variants.options'']
     = Inr \<lparr>r_row = tent, r_options = [],
            r_variants = [\<lparr>v_row = small, v_options = [small_size]\<rparr>, medium_created]\<rparr>
   \<and> deleteOption medium_store ''rental_tent'' ''opt_gone'' = Inr (None, medium_store)
   \<and> deleteOption medium_store ''rental_tent'' ''opt_size'' = Inl INVALID_DATA
   \<and> retrieve tent_store ''rental_tent'' [''variants'', ''variants.options'']
     = Inr \<lparr>r_row = tent, r_options = [],
            r_variants = [\<lparr>v_row = small, v_options = [small_size]\<rparr>]\<rparr>
   \<and> deleteOption tent_store ''rental_tent'' ''opt_size''
     = Inr (Some \<lparr>r_row = tent, r_options = [],
                  r_variants = [\<lparr>v_row = small, v_options = [small_size]\<rparr>]\<rparr>,
            tent_store\<lparr>option_table := [tent_size\<lparr>opt_deleted := True\<rparr>],
                       option_value_table := [small_size\<lparr>ov_deleted := True\<rparr>],
                       events := [Event ''rental.updated'' ''rental_tent'']\<rparr>)"
proof -
  have gone: "findOne_option medium_store ''rental_tent'' ''opt_gone'' = None"
    by (simp add: findOne_option_def medium_store_def tent_store_def empty_store_def tent_size_def)
  have there: "findOne_option medium_store ''rental_tent'' ''opt_size'' \<noteq> None"
    "findOne_option tent_store ''rental_tent'' ''opt_size'' \<noteq> None"
    by (simp_all add: findOne_option_def medium_store_def tent_store_def empty_store_def
        tent_size_def)
  have differ: "value_for ''opt_size'' \<lparr>v_row = small, v_options = [small_size]\<rparr>
                \<noteq> value_for ''opt_size'' medium_created"
    by (simp add: value_for_def small_size_def medium_created_def)
  have a: "deleteOption medium_store ''rental_tent'' ''opt_gone'' = Inr (None, medium_store)"
    using deleteOption_cases [OF retrieve_medium_variant_options, of "''opt_gone''"]
      gone [unfolded findOne_option_def]
    by blast
  have b: "deleteOption medium_store ''rental_tent'' ''opt_size'' = Inl INVALID_DATA"
  proof -
    have "\<exists>v1 \<in> set (r_variants \<lparr>r_row = tent, r_options = [],
              r_variants = [\<lparr>v_row = small, v_options = [small_size]\<rparr>, medium_created]\<rparr>).
          \<exists>v2 \<in> set (r_variants \<lparr>r_row = tent, r_options = [],
              r_variants = [\<lparr>v_row = small, v_options = [small_size]\<rparr>, medium_created]\<rparr>).
            value_for ''opt_size'' v1 \<noteq> value_for ''opt_size'' v2"
      using differ by auto
    with deleteOption_cases [OF retrieve_medium_variant_options, of "''opt_size''"]
      there(1) [unfolded findOne_option_def]
    show ?thesis unfolding value_for_def by blast
  qed
  have c: "deleteOption tent_store ''rental_tent'' ''opt_size''
     = Inr (Some \<lparr>r_row = tent, r_options = [],
                  r_variants = [\<lparr>v_row = small, v_options = [small_size]\<rparr>]\<rparr>,
            tent_store\<lparr>option_table := [tent_size\<lparr>opt_deleted := True\<rparr>],
                       option_value_table := [small_size\<lparr>ov_deleted := True\<rparr>],
                       events := [Event ''rental.updated'' ''rental_tent'']\<rparr>)"
  proof -
    have "\<forall>v1 \<in> set (r_variants \<lparr>r_row = tent, r_options = [],
              r_variants = [\<lparr>v_row = small, v_options = [small_size]\<rparr>]\<rparr>).
          \<forall>v2 \<in> set (r_variants \<lparr>r_row = tent, r_options = [],
              r_variants = [\<lparr>v_row = small, v_options = [small_size]\<rparr>]\<rparr>).
            map_option ov_value (find (\<lambda>ov. ov_option_id ov = ''opt_size'') (v_options v1))
            = map_option ov_value (find (\<lambda>ov. ov_option_id ov = ''opt_size'') (v_options v2))"
      by simp
    with deleteOption_cases [OF retrieve_tent_variant_options, of "''opt_size''"]
      there(2) [unfolded findOne_option_def]
    have "deleteOption tent_store ''rental_tent'' ''opt_size''
          = Inr (Some \<lparr>r_row = tent, r_options = [],
                  r_variants = [\<lparr>v_row = small, v_options = [small_size]\<rparr>]\<rparr>,
                 tent_store\<lparr>option_table :=
                              map (\<lambda>opt. if opt_id opt = ''opt_size'' then opt\<lparr>opt_deleted := True\<rparr>
                                         else opt)
                                (option_table tent_store),
                            option_value_table :=
                              map (\<lambda>ov. if ov_id ov
                                              \<in> set (map ov_id
                                                      (filter (\<lambda>v. ov_option_id v = ''opt_size''
                                                                   \<and> \<not> ov_deleted v)
                                                         (option_value_table tent_store)))
                                         then ov\<lparr>ov_deleted := True\<rparr> else ov)
                                (option_value_table tent_store),
                            events := events tent_store @ [Event ''rental.updated'' ''rental_tent'']\<rparr>)"
      by blast
    also have "option_table tent_store = [tent_size]" "option_value_table tent_store = [small_size]"
      "events tent_store = []"
      by (simp_all add: tent_store_def empty_store_def)
    then show ?thesis
      using calculation by (simp add: tent_size_def small_size_def)
  qed
  from a b c retrieve_medium_variant_options retrieve_tent_variant_options
  show ?thesis by simp
qed

subsection \<open>Setting the price of a region\<close>










subsection \<open>The transaction of the route that creates a rental\<close>

lemma create_new_tent:
  "RentalService_create empty_store (create_input (tent_request []) ''sp_default'')
   = Inr (new_tent, new_tent_store)"
  by code_simp

lemma create_variants_new_tent:
  "create_variants new_tent_store (r_id new_tent) (option_ids (tent_request []) new_tent)
     (enumerate 0 [\<lparr>rq_title = ''Small'', rq_inventory_quantity = 0, rq_options = [],
                      rq_prices = []\<rparr>])
   = Inl INVALID_DATA"
  by code_simp

text \<open>
  Claim C1 says that the route creates the rental and its variants in two transactions,
  so that a failure while a variant is created leaves the rental row persisted. For the
  request of a tent with the option Size and a variant that gives no value for it, the
  rental service creates the rental, the variant service then fails with InvalidData,
  and the handler ends with the store it started from: no rental row is persisted.
\<close>

theorem route_variant_failure_counterexample:
  "RentalService_create empty_store (create_input (tent_request []) ''sp_default'')
     = Inr (new_tent, new_tent_store)
   \<and> r_row new_tent \<in> set (rental_table new_tent_store)
   \<and> create_variants new_tent_store (r_id new_tent) (option_ids (tent_request []) new_tent)
       (enumerate 0 [\<lparr>rq_title = ''Small'', rq_inventory_quantity = 0, rq_options = [],
                      rq_prices = []\<rparr>])
     = Inl INVALID_DATA
   \<and> AdminPostRentals profiles (tent_request []) empty_store = (Inl INVALID_DATA, empty_store)
   \<and> rental_table (snd (AdminPostRentals profiles (tent_request []) empty_store)) = []"
proof -
  have a: "r_row new_tent \<in> set (rental_table new_tent_store)"
    by (simp add: new_tent_store_def)
  have b: "AdminPostRentals profiles (tent_request []) empty_store
           = (Inl INVALID_DATA, empty_store)"
    by code_simp
  have c: "rental_table (snd (AdminPostRentals profiles (tent_request []) empty_store)) = []"
    by (simp only: b snd_conv) (simp add: empty_store_def)
  from create_new_tent create_variants_new_tent a b c show ?thesis by simp
qed

text \<open>
  Claim C1, amended. The handler creates the rental and its variants inside one
  transaction that it opens itself. When the rental service has created the rental and
  the creation of a variant fails, the handler fails with that error and the store is
  the one before the request: the rental row is rolled back. When the variants are
  created, the rental and the variants are committed together.
\<close>

theorem route_variant_failure_rolls_back:
  assumes profile: "(if req_is_giftcard validated then sp_gift_card profs else sp_default profs)
                    = Some profile_id"
    and created: "RentalService_create s (create_input validated profile_id) = Inr (newRental, s1)"
    and variants: "req_variants validated = Some variants"
  shows "(create_variants s1 (r_id newRental) (option_ids validated newRental)
            (enumerate 0 variants) = Inl e
          \<longrightarrow> AdminPostRentals profs validated s = (Inl e, s))
       \<and> (create_variants s1 (r_id newRental) (option_ids validated newRental)
            (enumerate 0 variants) = Inr s2
          \<longrightarrow> snd (AdminPostRentals profs validated s) = s2)"
proof (intro conjI impI)
  assume "create_variants s1 (r_id newRental) (option_ids validated newRental)
            (enumerate 0 variants) = Inl e"
  then have "create_rental_work profs validated s = Inl e"
    using profile created variants by (simp add: create_rental_work_def)
  then show "AdminPostRentals profs validated s = (Inl e, s)"
    by (simp add: AdminPostRentals_def transaction_def)
next
  assume "create_variants s1 (r_id newRental) (option_ids validated newRental)
            (enumerate 0 variants) = Inr s2"
  then have "create_rental_work profs validated s = Inr (newRental, s2)"
    using profile created variants by (simp add: create_rental_work_def)
  then show "snd (AdminPostRentals profs validated s) = s2"
    by (simp add: AdminPostRentals_def transaction_def)
qed

theorem route_variant_failure_rolls_back_witness:
  "(if req_is_giftcard (tent_request []) then sp_gift_card profiles else sp_default profiles)
     = Some ''sp_default''
   \<and> RentalService_create empty_store (create_input (tent_request []) ''sp_default'')
     = Inr (new_tent, new_tent_store)
   \<and> req_variants (tent_request [])
     = Some [\<lparr>rq_title = ''Small'', rq_inventory_quantity = 0, rq_options = [],
                      rq_prices = []\<rparr>]
   \<and> create_variants new_tent_store (r_id new_tent) (option_ids (tent_request []) new_tent)
       (enumerate 0 [\<lparr>rq_title = ''Small'', rq_inventory_quantity = 0, rq_options = [],
                      rq_prices = []\<rparr>])
     = Inl INVALID_DATA
   \<and> AdminPostRentals profiles (tent_request []) empty_store = (Inl INVALID_DATA, empty_store)"
proof -
  have p: "(if req_is_giftcard (tent_request []) then sp_gift_card profiles else sp_default profiles)
           = Some ''sp_default''"
    and v: "req_variants (tent_request [])
            = Some [\<lparr>rq_title = ''Small'', rq_inventory_quantity = 0, rq_options = [],
                      rq_prices = []\<rparr>]"
    by (simp_all add: tent_request_def profiles_def)
  from route_variant_failure_rolls_back [OF p create_new_tent v, of INVALID_DATA]
    create_variants_new_tent
  have "AdminPostRentals profiles (tent_request []) empty_store = (Inl INVALID_DATA, empty_store)"
    by blast
  with p v create_new_tent create_variants_new_tent show ?thesis by simp
qed

subsection \<open>Listing rentals with their relations\<close>































end
